theory Spec2Isabelle
  imports Complex_Main "HOL-Library.Word" "HOL-Library.Monad_Syntax"
begin

section \<open>Strings\<close>

text \<open>
  A JavaScript string is a sequence of UTF-16 code units. \<open>length\<close>, \<open>slice\<close>,
  \<open>includes\<close>, \<open>replace\<close> and \<open>trim\<close> all work on code units, so the model is a
  list of 16-bit words. \<open>ascii\<close> writes an ASCII literal of the source.
\<close>

type_synonym jsstring = "16 word list"

definition ascii :: "string \<Rightarrow> jsstring" where
  "ascii = map (\<lambda>c. of_nat (of_char c))"

text \<open>
  \<open>String.prototype.trim\<close> removes ECMAScript white space and line terminators from
  both ends.
\<close>

definition is_ws :: "16 word \<Rightarrow> bool" where
  "is_ws c = (c \<in> set [0x0009, 0x000A, 0x000B, 0x000C, 0x000D, 0x0020, 0x00A0, 0x1680,
     0x2000, 0x2001, 0x2002, 0x2003, 0x2004, 0x2005, 0x2006, 0x2007, 0x2008, 0x2009, 0x200A,
     0x2028, 0x2029, 0x202F, 0x205F, 0x3000, 0xFEFF])"

definition trim :: "jsstring \<Rightarrow> jsstring" where
  "trim s = rev (dropWhile is_ws (rev (dropWhile is_ws s)))"

text \<open>\<open>Array.prototype.join\<close> on an array of strings.\<close>

fun join :: "jsstring \<Rightarrow> jsstring list \<Rightarrow> jsstring" where
  "join sep [] = []"
| "join sep [x] = x"
| "join sep (x # y # ys) = x @ sep @ join sep (y # ys)"

text \<open>
  Truthiness of a string (\<open>Boolean(s)\<close>): every string but the empty one. An optional
  field holds \<open>undefined\<close>, \<open>null\<close> or a string; the code below treats \<open>undefined\<close> and
  \<open>null\<close> alike everywhere (\<open>??\<close>, \<open>== null\<close>, truthiness), so both are \<open>None\<close>.
\<close>

definition truthy :: "jsstring \<Rightarrow> bool" where
  "truthy s = (s \<noteq> [])"

fun truthy_opt :: "jsstring option \<Rightarrow> bool" where
  "truthy_opt None = False"
| "truthy_opt (Some s) = truthy s"

text \<open>\<open>[a, b, ...].filter(Boolean)\<close> on optional strings keeps the non-empty strings.\<close>

fun filter_Boolean :: "jsstring option list \<Rightarrow> jsstring list" where
  "filter_Boolean [] = []"
| "filter_Boolean (None # xs) = filter_Boolean xs"
| "filter_Boolean (Some s # xs) = (if truthy s then s # filter_Boolean xs else filter_Boolean xs)"


section \<open>JSON values and the response schema (extraction.ts)\<close>

text \<open>
  The values \<open>JSON.parse\<close> and \<open>response.json()\<close> return. A number is its real value
  (the comparisons of the schema are exact on doubles); an object is its list of
  properties, read with \<open>map_of\<close>. A missing property reads as \<open>undefined\<close>: \<open>None\<close>.
\<close>

datatype json =
  JNull
| JBool bool
| JNum real
| JStr jsstring
| JArr "json list"
| JObj "(jsstring \<times> json) list"

text \<open>The output type of \<open>entitySchema\<close>, before the coercions of the map callback.\<close>

datatype strnum = Str jsstring | Num real

datatype strs = Arr "jsstring list" | One jsstring

record ParsedEntity =
  z_genus :: "jsstring option"
  z_species :: "jsstring option"
  z_subspecies :: "jsstring option"
  z_serovar :: "jsstring option"
  z_strain :: "jsstring option"
  z_mlst_st :: "jsstring option"
  z_taxonomy_id :: "strnum option"
  z_source :: "jsstring option"
  z_resistance :: "strs option"
  z_pathogenicity :: "jsstring option"
  z_context :: "jsstring option"
  z_confidence :: "real option"
  z_note :: "jsstring option"

text \<open>
  The zod combinators the schema is built from. A parser returns \<open>None\<close> when zod
  reports an issue; \<open>safeParse\<close> succeeds exactly when no part reports one.
\<close>

fun z_string :: "json \<Rightarrow> jsstring option" where
  "z_string (JStr s) = Some s"
| "z_string _ = None"

definition z_string_trim :: "json \<Rightarrow> jsstring option" where
  "z_string_trim v = map_option trim (z_string v)"

fun z_number :: "json \<Rightarrow> real option" where
  "z_number (JNum r) = Some r"
| "z_number _ = None"

text \<open>\<open>z.number().min(0).max(1)\<close>: an issue when the value is below 0 or above 1.\<close>

definition z_number_min0_max1 :: "json \<Rightarrow> real option" where
  "z_number_min0_max1 v =
     (case z_number v of
        None \<Rightarrow> None
      | Some r \<Rightarrow> if r < 0 then None else if r > 1 then None else Some r)"

fun z_all :: "('a \<Rightarrow> 'b option) \<Rightarrow> 'a list \<Rightarrow> 'b list option" where
  "z_all p [] = Some []"
| "z_all p (x # xs) =
     (case p x of
        None \<Rightarrow> None
      | Some y \<Rightarrow> (case z_all p xs of None \<Rightarrow> None | Some ys \<Rightarrow> Some (y # ys)))"

fun z_array :: "(json \<Rightarrow> 'b option) \<Rightarrow> json \<Rightarrow> 'b list option" where
  "z_array p (JArr xs) = z_all p xs"
| "z_array p _ = None"

text \<open>\<open>.optional().nullable()\<close> on a property: \<open>undefined\<close> and \<open>null\<close> pass.\<close>

fun optional_nullable :: "(json \<Rightarrow> 'b option) \<Rightarrow> json option \<Rightarrow> 'b option option" where
  "optional_nullable p None = Some None"
| "optional_nullable p (Some JNull) = Some None"
| "optional_nullable p (Some v) = map_option Some (p v)"

text \<open>\<open>.default(d)\<close> on a property: only \<open>undefined\<close> takes the default.\<close>

fun with_default :: "(json \<Rightarrow> 'b option) \<Rightarrow> 'b \<Rightarrow> json option \<Rightarrow> 'b option" where
  "with_default p d None = Some d"
| "with_default p d (Some v) = p v"

text \<open>\<open>z.union([z.string(), z.number()])\<close>\<close>

definition z_string_or_number :: "json \<Rightarrow> strnum option" where
  "z_string_or_number v =
     (case z_string v of
        Some s \<Rightarrow> Some (Str s)
      | None \<Rightarrow> map_option Num (z_number v))"

text \<open>\<open>z.union([z.array(z.string()), z.string()])\<close>\<close>

definition z_strings_or_string :: "json \<Rightarrow> strs option" where
  "z_strings_or_string v =
     (case z_array z_string v of
        Some xs \<Rightarrow> Some (Arr xs)
      | None \<Rightarrow> map_option One (z_string v))"

text \<open>\<open>z.object({ snippet: z.string() })\<close>: the parsed object holds the snippet only.\<close>

fun z_context_object :: "json \<Rightarrow> jsstring option" where
  "z_context_object (JObj kv) =
     (case map_of kv (ascii ''snippet'') of None \<Rightarrow> None | Some v \<Rightarrow> z_string v)"
| "z_context_object _ = None"

fun entitySchema :: "json \<Rightarrow> ParsedEntity option" where
  "entitySchema (JObj kv) = do {
     genus \<leftarrow> optional_nullable z_string_trim (map_of kv (ascii ''genus''));
     species \<leftarrow> optional_nullable z_string_trim (map_of kv (ascii ''species''));
     subspecies \<leftarrow> optional_nullable z_string_trim (map_of kv (ascii ''subspecies''));
     serovar \<leftarrow> optional_nullable z_string_trim (map_of kv (ascii ''serovar''));
     strain \<leftarrow> optional_nullable z_string_trim (map_of kv (ascii ''strain''));
     mlst_st \<leftarrow> optional_nullable z_string_trim (map_of kv (ascii ''mlst_st''));
     taxonomy_id \<leftarrow> optional_nullable z_string_or_number (map_of kv (ascii ''taxonomy_id''));
     source \<leftarrow> optional_nullable z_string_trim (map_of kv (ascii ''source''));
     resistance \<leftarrow> optional_nullable z_strings_or_string (map_of kv (ascii ''resistance''));
     pathogenicity \<leftarrow> optional_nullable z_string_trim (map_of kv (ascii ''pathogenicity''));
     ctx \<leftarrow> optional_nullable z_context_object (map_of kv (ascii ''context''));
     confidence \<leftarrow> optional_nullable z_number_min0_max1 (map_of kv (ascii ''confidence''));
     note \<leftarrow> optional_nullable z_string (map_of kv (ascii ''note''));
     Some \<lparr>z_genus = genus, z_species = species, z_subspecies = subspecies,
       z_serovar = serovar, z_strain = strain, z_mlst_st = mlst_st,
       z_taxonomy_id = taxonomy_id, z_source = source, z_resistance = resistance,
       z_pathogenicity = pathogenicity, z_context = ctx, z_confidence = confidence,
       z_note = note\<rparr>
   }"
| "entitySchema _ = None"

record ParsedSummary =
  z_key_findings :: "jsstring list"

record ParsedExtraction =
  z_entities :: "ParsedEntity list"
  z_summary :: ParsedSummary

fun summarySchema :: "json \<Rightarrow> ParsedSummary option" where
  "summarySchema (JObj kv) = do {
     kf \<leftarrow> with_default (z_array z_string) [] (map_of kv (ascii ''key_findings''));
     Some \<lparr>z_key_findings = kf\<rparr>
   }"
| "summarySchema _ = None"

fun extractionSchema :: "json \<Rightarrow> ParsedExtraction option" where
  "extractionSchema (JObj kv) = do {
     es \<leftarrow> with_default (z_array entitySchema) [] (map_of kv (ascii ''entities''));
     sm \<leftarrow> with_default summarySchema \<lparr>z_key_findings = []\<rparr> (map_of kv (ascii ''summary''));
     Some \<lparr>z_entities = es, z_summary = sm\<rparr>
   }"
| "extractionSchema _ = None"


section \<open>From the response envelope to entities (extractEntitiesFromText)\<close>

record MicrobialEntity =
  id' :: jsstring
  genus :: "jsstring option"
  species :: "jsstring option"
  subspecies :: "jsstring option"
  serovar :: "jsstring option"
  strain :: "jsstring option"
  mlst_st :: "jsstring option"
  taxonomy_id :: "jsstring option"
  source :: "jsstring option"
  resistance :: "jsstring list option"
  pathogenicity :: "jsstring option"
  context' :: "jsstring option"
  confidence :: "real option"

text \<open>
  \<open>crypto.randomUUID()\<close> draws from the environment: the generator state is the
  sequence of identifiers still to come, and a call takes the first.
\<close>

type_synonym rng = "nat \<Rightarrow> jsstring"

definition randomUUID :: "rng \<Rightarrow> jsstring \<times> rng" where
  "randomUUID g = (g 0, \<lambda>n. g (Suc n))"

text \<open>
  The local \<open>resistance\<close> of the callback:
  \<^verbatim>\<open>Array.isArray(r) ? r.filter(Boolean) : r ? [r].filter(Boolean) : []\<close>
\<close>

fun resistance_of :: "strs option \<Rightarrow> jsstring list" where
  "resistance_of (Some (Arr xs)) = filter truthy xs"
| "resistance_of (Some (One s)) = (if truthy s then filter truthy [s] else [])"
| "resistance_of None = []"

text \<open>
  \<^verbatim>\<open>entity.taxonomy_id ? String(entity.taxonomy_id) : null\<close>. A number is falsy when
  it is 0. \<open>String\<close> of a number is the host's number-to-string conversion, the
  parameter \<open>num_str\<close>; \<open>String\<close> of a string is the string.
\<close>

fun truthy_strnum :: "strnum \<Rightarrow> bool" where
  "truthy_strnum (Str s) = truthy s"
| "truthy_strnum (Num n) = (n \<noteq> 0)"

fun String_strnum :: "(real \<Rightarrow> jsstring) \<Rightarrow> strnum \<Rightarrow> jsstring" where
  "String_strnum num_str (Str s) = s"
| "String_strnum num_str (Num n) = num_str n"

fun taxonomy_id_of :: "(real \<Rightarrow> jsstring) \<Rightarrow> strnum option \<Rightarrow> jsstring option" where
  "taxonomy_id_of num_str None = None"
| "taxonomy_id_of num_str (Some t) =
     (if truthy_strnum t then Some (String_strnum num_str t) else None)"

text \<open>The object literal the callback returns, for the identifier \<open>u\<close> it drew.\<close>

definition to_entity :: "(real \<Rightarrow> jsstring) \<Rightarrow> jsstring \<Rightarrow> ParsedEntity \<Rightarrow> MicrobialEntity" where
  "to_entity num_str u entity =
     \<lparr>id' = u,
      genus = z_genus entity,
      species = z_species entity,
      subspecies = z_subspecies entity,
      serovar = z_serovar entity,
      strain = z_strain entity,
      mlst_st = z_mlst_st entity,
      taxonomy_id = taxonomy_id_of num_str (z_taxonomy_id entity),
      source = z_source entity,
      resistance = Some (resistance_of (z_resistance entity)),
      pathogenicity = z_pathogenicity entity,
      context' = z_context entity,
      confidence = z_confidence entity\<rparr>"

text \<open>\<open>parsed.data.entities.map(...)\<close>: the callback runs once per entity, in order.\<close>

fun map_entities ::
  "(real \<Rightarrow> jsstring) \<Rightarrow> rng \<Rightarrow> ParsedEntity list \<Rightarrow> MicrobialEntity list \<times> rng" where
  "map_entities num_str g [] = ([], g)"
| "map_entities num_str g (e # es) =
     (let (u, g1) = randomUUID g;
          (rest, g2) = map_entities num_str g1 es
      in (to_entity num_str u e # rest, g2))"

text \<open>
  Optional chaining \<open>json?.choices?.[0]?.message?.content\<close>. \<open>None\<close> is \<open>undefined\<close>.
  None of the three names is a built-in member of a string, an array, a number or a
  boolean, so only an object has them; index 0 reads an array element, the first code
  unit of a string, or the property \<open>"0"\<close> of an object.
\<close>

fun get_prop :: "jsstring \<Rightarrow> json option \<Rightarrow> json option" where
  "get_prop k (Some (JObj kv)) = map_of kv k"
| "get_prop k _ = None"

fun get_index0 :: "json option \<Rightarrow> json option" where
  "get_index0 (Some (JArr (x # xs))) = Some x"
| "get_index0 (Some (JStr (c # cs))) = Some (JStr [c])"
| "get_index0 (Some (JObj kv)) = map_of kv (ascii ''0'')"
| "get_index0 _ = None"

definition contentRaw_of :: "json \<Rightarrow> json option" where
  "contentRaw_of js =
     get_prop (ascii ''content'') (get_prop (ascii ''message'')
       (get_index0 (get_prop (ascii ''choices'') (Some js))))"

text \<open>The two errors thrown after the response body has been read.\<close>

datatype extract_error =
  NotJson    \<comment> \<open>the content string is not JSON\<close>
| BadShape   \<comment> \<open>the content does not pass \<open>extractionSchema\<close>\<close>

text \<open>
  The local \<open>content\<close>: \<open>{}\<close> unless \<open>contentRaw\<close> is a string with something left
  after trimming, which is parsed. \<open>JSON.parse\<close> is the parameter \<open>parse\<close>; \<open>None\<close> is
  its SyntaxError.
\<close>

definition content_of :: "(jsstring \<Rightarrow> json option) \<Rightarrow> json option \<Rightarrow> extract_error + json" where
  "content_of parse contentRaw =
     (case contentRaw of
        Some (JStr s) \<Rightarrow>
          (if length (trim s) \<noteq> 0
           then (case parse s of None \<Rightarrow> Inl NotJson | Some v \<Rightarrow> Inr v)
           else Inr (JObj []))
      | _ \<Rightarrow> Inr (JObj []))"

text \<open>
  \<open>extractEntitiesFromText\<close> from the point where the response body \<open>json\<close> is at
  hand (the HTTP exchange before it is outside the model). \<open>normalize\<close> is its second
  half: \<open>safeParse\<close>, the error when it fails, and the map over the parsed entities.
\<close>

definition normalize ::
  "(real \<Rightarrow> jsstring) \<Rightarrow> rng \<Rightarrow> json \<Rightarrow> extract_error + (MicrobialEntity list \<times> rng)" where
  "normalize num_str g content =
     (case extractionSchema content of
        None \<Rightarrow> Inl BadShape
      | Some parsed \<Rightarrow> Inr (map_entities num_str g (z_entities parsed)))"

definition extractEntitiesFromText ::
  "(jsstring \<Rightarrow> json option) \<Rightarrow> (real \<Rightarrow> jsstring) \<Rightarrow> rng \<Rightarrow> json
     \<Rightarrow> extract_error + (MicrobialEntity list \<times> rng)" where
  "extractEntitiesFromText parse num_str g js =
     (case content_of parse (contentRaw_of js) of
        Inl e \<Rightarrow> Inl e
      | Inr content \<Rightarrow> normalize num_str g content)"


section \<open>The record builder (buildExtractionRecord)\<close>

record ExtractionSummary =
  organismCount :: nat
  uniqueSpecies :: nat
  resistanceCount :: nat
  sourceCount :: nat
  pathogenicityCount :: nat
  keyFindings :: "jsstring list"

record ExtractionRecord =
  record_id :: jsstring
  fileName :: jsstring
  fileSize :: nat
  processedAt :: jsstring
  durationMs :: int
  summary :: ExtractionSummary
  entities :: "MicrobialEntity list"
  rawTextPreview :: jsstring

text \<open>\<^verbatim>\<open>[entity.genus, entity.species].filter(Boolean).join(" ") || null\<close>\<close>

definition species_key :: "MicrobialEntity \<Rightarrow> jsstring option" where
  "species_key entity =
     (let s = join (ascii '' '') (filter_Boolean [genus entity, species entity])
      in if truthy s then Some s else None)"

text \<open>The placeholder label, U+672A U+547D U+540D U+5B9E U+4F53.\<close>

definition unnamed_entity :: jsstring where
  "unnamed_entity = [0x672A, 0x547D, 0x540D, 0x5B9E, 0x4F53]"

text \<open>
  \<^verbatim>\<open>[entity.genus, entity.species, entity.strain].filter(Boolean).join(" ") || "..."\<close>
\<close>

definition key_finding :: "MicrobialEntity \<Rightarrow> jsstring" where
  "key_finding entity =
     (let s = join (ascii '' '') (filter_Boolean [genus entity, species entity, strain entity])
      in if truthy s then s else unnamed_entity)"

text \<open>
  \<open>new Date(finishedAt).toISOString()\<close> throws a RangeError when the time value is
  outside the range of \<open>Date\<close> (8.64e15 ms either side of the epoch); inside it, the text
  is the host's, the parameter \<open>date_text\<close>.
\<close>

datatype build_error = RangeError

definition toISOString :: "(int \<Rightarrow> jsstring) \<Rightarrow> int \<Rightarrow> build_error + jsstring" where
  "toISOString date_text t = (if \<bar>t\<bar> \<le> 8640000000000000 then Inr (date_text t) else Inl RangeError)"

text \<open>
  The size of a \<open>Set\<close> of strings is the number of distinct strings; a \<open>reduce\<close> is a
  left fold; \<open>slice(0, n)\<close> on a string keeps its first \<open>n\<close> code units.
\<close>

definition buildExtractionRecord ::
  "(int \<Rightarrow> jsstring) \<Rightarrow> rng \<Rightarrow> jsstring \<Rightarrow> nat \<Rightarrow> int \<Rightarrow> int \<Rightarrow> MicrobialEntity list \<Rightarrow> jsstring
     \<Rightarrow> build_error + (ExtractionRecord \<times> rng)" where
  "buildExtractionRecord date_text g file_name file_size startedAt finishedAt ents rawText =
     (let organism_count = length ents;
          unique_species = length (remdups (filter_Boolean (map species_key ents)));
          resistance_count =
            foldl (\<lambda>acc entity. acc + (case resistance entity of Some r \<Rightarrow> length r | None \<Rightarrow> 0))
              0 ents;
          source_count = length (filter (\<lambda>entity. truthy_opt (source entity)) ents);
          pathogenicity_count = length (filter (\<lambda>entity. truthy_opt (pathogenicity entity)) ents);
          (u, g1) = randomUUID g
      in case toISOString date_text finishedAt of
           Inl e \<Rightarrow> Inl e
         | Inr processed_at \<Rightarrow>
             Inr (\<lparr>record_id = u,
                   fileName = file_name,
                   fileSize = file_size,
                   processedAt = processed_at,
                   durationMs = finishedAt - startedAt,
                   summary = \<lparr>organismCount = organism_count,
                              uniqueSpecies = unique_species,
                              resistanceCount = resistance_count,
                              sourceCount = source_count,
                              pathogenicityCount = pathogenicity_count,
                              keyFindings = map key_finding (take 5 ents)\<rparr>,
                   entities = ents,
                   rawTextPreview = take 600 rawText\<rparr>, g1))"


section \<open>Export (download.ts)\<close>

text \<open>
  What a download hands to the browser: the text of the blob, its type and the name of
  the file.
\<close>

record download =
  blob_text :: jsstring
  blob_type :: jsstring
  file_name :: jsstring

text \<open>
  \<^verbatim>\<open>record.fileName.replace(/\\.pdf$/i, "")\<close>. The pattern of the source reads: a
  backslash (the escaped backslash of the pattern), any code unit but a line terminator
  (the dot), then \<open>p\<close>, \<open>d\<close>, \<open>f\<close> in either case, then the end of the input. A
  match is therefore the last five code units, and \<open>replace\<close> removes it.
\<close>

definition is_line_terminator :: "16 word \<Rightarrow> bool" where
  "is_line_terminator c = (c \<in> set [0x000A, 0x000D, 0x2028, 0x2029])"

definition eq_ignore_case :: "16 word \<Rightarrow> 16 word \<Rightarrow> bool" where
  \<comment> \<open>\<open>lower\<close> is a lower-case ASCII letter of the pattern\<close>
  "eq_ignore_case c lower = (c = lower \<or> c = lower - 0x20)"

fun matches_pattern :: "jsstring \<Rightarrow> bool" where
  "matches_pattern [b, x, p, d, f] =
     (b = 0x5C \<and> \<not> is_line_terminator x \<and> eq_ignore_case p 0x70 \<and> eq_ignore_case d 0x64
        \<and> eq_ignore_case f 0x66)"
| "matches_pattern _ = False"

definition replace_pdf :: "jsstring \<Rightarrow> jsstring" where
  "replace_pdf s =
     (let n = length s
      in if 5 \<le> n \<and> matches_pattern (drop (n - 5) s) then take (n - 5) s else s)"

text \<open>\<open>JSON.stringify(record, null, 2)\<close> is the host's, the parameter \<open>stringify\<close>.\<close>

definition downloadRecordAsJson :: "(ExtractionRecord \<Rightarrow> jsstring) \<Rightarrow> ExtractionRecord \<Rightarrow> download" where
  "downloadRecordAsJson stringify r =
     \<lparr>blob_text = stringify r,
      blob_type = ascii ''application/json'',
      file_name = replace_pdf (fileName r) @ ascii ''-micr-ai.json''\<rparr>"

definition headers :: "jsstring list" where
  "headers = map ascii [''genus'', ''species'', ''subspecies'', ''serovar'', ''strain'',
     ''mlst_st'', ''taxonomy_id'', ''source'', ''resistance'', ''pathogenicity'', ''context'',
     ''confidence'']"

text \<open>\<^verbatim>\<open>(entity as Record<string, unknown>)[header]\<close>: the property of that name.\<close>

datatype cell_value =
  Undefined
| StrV jsstring
| NumV real
| ArrV "jsstring list"

fun of_opt :: "('a \<Rightarrow> cell_value) \<Rightarrow> 'a option \<Rightarrow> cell_value" where
  "of_opt f None = Undefined"
| "of_opt f (Some x) = f x"

definition entity_prop :: "MicrobialEntity \<Rightarrow> jsstring \<Rightarrow> cell_value" where
  "entity_prop entity header =
     (if header = ascii ''id'' then StrV (id' entity)
      else if header = ascii ''genus'' then of_opt StrV (genus entity)
      else if header = ascii ''species'' then of_opt StrV (species entity)
      else if header = ascii ''subspecies'' then of_opt StrV (subspecies entity)
      else if header = ascii ''serovar'' then of_opt StrV (serovar entity)
      else if header = ascii ''strain'' then of_opt StrV (strain entity)
      else if header = ascii ''mlst_st'' then of_opt StrV (mlst_st entity)
      else if header = ascii ''taxonomy_id'' then of_opt StrV (taxonomy_id entity)
      else if header = ascii ''source'' then of_opt StrV (source entity)
      else if header = ascii ''resistance'' then of_opt ArrV (resistance entity)
      else if header = ascii ''pathogenicity'' then of_opt StrV (pathogenicity entity)
      else if header = ascii ''context'' then of_opt StrV (context' entity)
      else if header = ascii ''confidence'' then of_opt NumV (confidence entity)
      else Undefined)"

text \<open>\<^verbatim>\<open>.replace(/"/g, '""')\<close>: every double quote is doubled.\<close>

definition double_quotes :: "jsstring \<Rightarrow> jsstring" where
  "double_quotes s = concat (map (\<lambda>c. if c = 0x22 then [0x22, 0x22] else [c]) s)"

definition quoted :: "jsstring \<Rightarrow> jsstring" where
  "quoted s = [0x22] @ s @ [0x22]"

text \<open>\<open>String(value)\<close> of a scalar; a number goes through the host's \<open>num_str\<close>.\<close>

fun String_value :: "(real \<Rightarrow> jsstring) \<Rightarrow> cell_value \<Rightarrow> jsstring" where
  "String_value num_str (StrV s) = s"
| "String_value num_str (NumV n) = num_str n"
| "String_value num_str (ArrV xs) = join (ascii '','') xs"
| "String_value num_str Undefined = ascii ''undefined''"

text \<open>The callback of \<open>headers.map\<close>: the array test, then the null test, then the scalar.\<close>

fun csv_cell :: "(real \<Rightarrow> jsstring) \<Rightarrow> cell_value \<Rightarrow> jsstring" where
  "csv_cell num_str (ArrV xs) = quoted (double_quotes (join (ascii ''; '') xs))"
| "csv_cell num_str Undefined = []"
| "csv_cell num_str v =
     (let str = double_quotes (String_value num_str v)
      in if 0x2C \<in> set str \<or> 0x0A \<in> set str then quoted str else str)"

definition csv_row :: "(real \<Rightarrow> jsstring) \<Rightarrow> MicrobialEntity \<Rightarrow> jsstring" where
  "csv_row num_str entity =
     join (ascii '','') (map (\<lambda>header. csv_cell num_str (entity_prop entity header)) headers)"

definition downloadRecordAsCsv :: "(real \<Rightarrow> jsstring) \<Rightarrow> ExtractionRecord \<Rightarrow> download" where
  "downloadRecordAsCsv num_str r =
     (let rows = map (csv_row num_str) (entities r);
          csv = join [0x0A] (join (ascii '','') headers # rows)
      in \<lparr>blob_text = csv,
          blob_type = ascii ''text/csv;charset=utf-8;'',
          file_name = replace_pdf (fileName r) @ ascii ''-micr-ai.csv''\<rparr>)"


section \<open>The persisted history (storage.ts)\<close>

text \<open>
  The environment of \<open>loadStoredRecords\<close>: no \<open>window\<close> at all (outside a browser), a
  \<open>window\<close> whose \<open>localStorage\<close> refuses access (reading it throws), or a store, a map
  from keys to texts.
\<close>

datatype host =
  NoWindow
| Refused
| Store "jsstring \<rightharpoonup> jsstring"

datatype js_error = SecurityError | SyntaxError

definition RECORDS_KEY :: jsstring where
  "RECORDS_KEY = ascii ''micr-ai:records''"

fun getItem :: "host \<Rightarrow> jsstring \<Rightarrow> js_error + jsstring option" where
  "getItem (Store m) k = Inr (m k)"
| "getItem _ k = Inl SecurityError"

text \<open>The body of the \<open>try\<close> block; \<open>JSON.parse\<close> is the parameter \<open>parse\<close> again.\<close>

definition load_body :: "(jsstring \<Rightarrow> json option) \<Rightarrow> host \<Rightarrow> js_error + json list" where
  "load_body parse h =
     (case getItem h RECORDS_KEY of
        Inl e \<Rightarrow> Inl e
      | Inr raw \<Rightarrow>
          (case raw of
             None \<Rightarrow> Inr []
           | Some text \<Rightarrow>
               (if \<not> truthy text then Inr []
                else (case parse text of
                        None \<Rightarrow> Inl SyntaxError
                      | Some parsed \<Rightarrow> (case parsed of JArr xs \<Rightarrow> Inr xs | _ \<Rightarrow> Inr [])))))"

text \<open>\<open>try { ... } catch (error) { ...; return [] }\<close>\<close>

definition loadStoredRecords :: "(jsstring \<Rightarrow> json option) \<Rightarrow> host \<Rightarrow> js_error + json list" where
  "loadStoredRecords parse h =
     (case h of
        NoWindow \<Rightarrow> Inr []
      | _ \<Rightarrow> (case load_body parse h of Inl error \<Rightarrow> Inr [] | Inr records \<Rightarrow> Inr records))"


section \<open>Readings of the specification\<close>

text \<open>
  The specification's own description of some results, written independently of the
  code, to be compared with what the code computes.
\<close>

text \<open>The resistance strings of an entity; an entity without a list has none.\<close>

definition resistance_strings :: "MicrobialEntity \<Rightarrow> jsstring list" where
  "resistance_strings entity = (case resistance entity of Some r \<Rightarrow> r | None \<Rightarrow> [])"

text \<open>
  A key-finding label: genus, species and strain, absent (or empty) parts left out, the
  rest joined by single spaces; the placeholder when no part is left.
\<close>

fun usable_part :: "jsstring option \<Rightarrow> jsstring list" where
  "usable_part None = []"
| "usable_part (Some s) = (if s = [] then [] else [s])"

definition label_of :: "MicrobialEntity \<Rightarrow> jsstring" where
  "label_of entity =
     (let parts = usable_part (genus entity) @ usable_part (species entity) @ usable_part (strain entity)
      in if parts = [] then unnamed_entity else join [0x20] parts)"

text \<open>
  Characters counted in Unicode scalar units: a high surrogate followed by a low
  surrogate is one character of two code units, any other code unit is a character of
  its own. \<open>scalar_prefix n s\<close> is the text of the first \<open>n\<close> characters of \<open>s\<close>.
\<close>

definition is_high_surrogate :: "16 word \<Rightarrow> bool" where
  "is_high_surrogate c = (0xD800 \<le> c \<and> c \<le> 0xDBFF)"

definition is_low_surrogate :: "16 word \<Rightarrow> bool" where
  "is_low_surrogate c = (0xDC00 \<le> c \<and> c \<le> 0xDFFF)"

fun scalars :: "jsstring \<Rightarrow> jsstring list" where
  "scalars (h # l # cs) =
     (if is_high_surrogate h \<and> is_low_surrogate l then [h, l] # scalars cs
      else [h] # scalars (l # cs))"
| "scalars [c] = [c] # []"
| "scalars [] = []"

definition scalar_prefix :: "nat \<Rightarrow> jsstring \<Rightarrow> jsstring" where
  "scalar_prefix n s = concat (take n (scalars s))"

text \<open>A surrogate pair in a text: a high surrogate directly followed by a low one.\<close>

fun has_surrogate_pair :: "jsstring \<Rightarrow> bool" where
  "has_surrogate_pair (h # l # cs) =
     ((is_high_surrogate h \<and> is_low_surrogate l) \<or> has_surrogate_pair (l # cs))"
| "has_surrogate_pair [c] = False"
| "has_surrogate_pair [] = False"

text \<open>
  A file name with a trailing ".pdf", in either case of each letter, removed.
\<close>

definition ends_with_pdf :: "jsstring \<Rightarrow> bool" where
  "ends_with_pdf s =
     (case drop (length s - 4) s of
        [dot, p, d, f] \<Rightarrow> dot = 0x2E \<and> p \<in> {0x70, 0x50} \<and> d \<in> {0x64, 0x44} \<and> f \<in> {0x66, 0x46}
      | _ \<Rightarrow> False)"

definition without_pdf :: "jsstring \<Rightarrow> jsstring" where
  "without_pdf s = (if ends_with_pdf s then take (length s - 4) s else s)"

text \<open>
  The cells of a CSV row as the specification describes them. A list cell joins its
  elements with "; ", doubles the double quotes and is always quoted. A scalar cell is
  empty when the value is absent; otherwise its double quotes are doubled and it is
  quoted exactly when it holds a comma or a newline. An absent list gives an empty cell
  like any absent value. A row has the twelve cells in the order of the header.
\<close>

fun doubled :: "jsstring \<Rightarrow> jsstring" where
  "doubled [] = []"
| "doubled (c # cs) = (if c = 0x22 then 0x22 # 0x22 # doubled cs else c # doubled cs)"

fun list_cell :: "jsstring list option \<Rightarrow> jsstring" where
  "list_cell None = []"
| "list_cell (Some xs) = 0x22 # doubled (join [0x3B, 0x20] xs) @ [0x22]"

fun scalar_cell :: "jsstring option \<Rightarrow> jsstring" where
  "scalar_cell None = []"
| "scalar_cell (Some t) =
     (if 0x2C \<in> set t \<or> 0x0A \<in> set t then 0x22 # doubled t @ [0x22] else doubled t)"

definition row_cells :: "(real \<Rightarrow> jsstring) \<Rightarrow> MicrobialEntity \<Rightarrow> jsstring list" where
  "row_cells num_str e =
     [scalar_cell (genus e), scalar_cell (species e), scalar_cell (subspecies e),
      scalar_cell (serovar e), scalar_cell (strain e), scalar_cell (mlst_st e),
      scalar_cell (taxonomy_id e), scalar_cell (source e), list_cell (resistance e),
      scalar_cell (pathogenicity e), scalar_cell (context' e),
      scalar_cell (map_option num_str (confidence e))]"

text \<open>\<open>Array.isArray\<close> on a parsed value.\<close>

fun is_array :: "json \<Rightarrow> bool" where
  "is_array (JArr xs) = True"
| "is_array _ = False"


text \<open>
  The expected shape of a raw response. Every text field of an entity (and the note) is
  absent, null or a string; taxonomy_id may also be a number; resistance is a string or
  a list of strings; context is an object with a string snippet; confidence is a number
  between 0 and 1. The entities are a list of such objects, or missing; the summary is
  missing or an object whose key_findings are missing or a list of strings.
\<close>

fun is_string :: "json \<Rightarrow> bool" where
  "is_string (JStr s) = True"
| "is_string _ = False"

fun is_string_or_number :: "json \<Rightarrow> bool" where
  "is_string_or_number (JStr s) = True"
| "is_string_or_number (JNum n) = True"
| "is_string_or_number _ = False"

fun is_string_list :: "json \<Rightarrow> bool" where
  "is_string_list (JArr xs) = list_all is_string xs"
| "is_string_list _ = False"

fun is_string_or_string_list :: "json \<Rightarrow> bool" where
  "is_string_or_string_list (JStr s) = True"
| "is_string_or_string_list v = is_string_list v"

fun is_snippet_object :: "json \<Rightarrow> bool" where
  "is_snippet_object (JObj kv) =
     (case map_of kv (ascii ''snippet'') of Some (JStr s) \<Rightarrow> True | _ \<Rightarrow> False)"
| "is_snippet_object _ = False"

fun is_unit_number :: "json \<Rightarrow> bool" where
  "is_unit_number (JNum r) = (0 \<le> r \<and> r \<le> 1)"
| "is_unit_number _ = False"

fun absent_or :: "(json \<Rightarrow> bool) \<Rightarrow> json option \<Rightarrow> bool" where
  "absent_or p None = True"
| "absent_or p (Some JNull) = True"
| "absent_or p (Some v) = p v"

fun missing_or :: "(json \<Rightarrow> bool) \<Rightarrow> json option \<Rightarrow> bool" where
  "missing_or p None = True"
| "missing_or p (Some v) = p v"

definition text_fields :: "string list" where
  "text_fields = [''genus'', ''species'', ''subspecies'', ''serovar'', ''strain'', ''mlst_st'',
     ''source'', ''pathogenicity'', ''note'']"

fun entity_conforms :: "json \<Rightarrow> bool" where
  "entity_conforms (JObj kv) =
     (list_all (\<lambda>k. absent_or is_string (map_of kv (ascii k))) text_fields
      \<and> absent_or is_string_or_number (map_of kv (ascii ''taxonomy_id''))
      \<and> absent_or is_string_or_string_list (map_of kv (ascii ''resistance''))
      \<and> absent_or is_snippet_object (map_of kv (ascii ''context''))
      \<and> absent_or is_unit_number (map_of kv (ascii ''confidence'')))"
| "entity_conforms _ = False"

fun is_entity_list :: "json \<Rightarrow> bool" where
  "is_entity_list (JArr es) = list_all entity_conforms es"
| "is_entity_list _ = False"

fun summary_conforms :: "json \<Rightarrow> bool" where
  "summary_conforms (JObj kv) = missing_or is_string_list (map_of kv (ascii ''key_findings''))"
| "summary_conforms _ = False"

fun conforms :: "json \<Rightarrow> bool" where
  "conforms (JObj kv) =
     (missing_or is_entity_list (map_of kv (ascii ''entities''))
      \<and> missing_or summary_conforms (map_of kv (ascii ''summary'')))"
| "conforms _ = False"

text \<open>
  The entity the specification expects for a raw entity object and a fresh identifier:
  text fields trimmed, or null when absent; taxonomy_id as text, or null when absent,
  empty or zero; resistance as the list of its non-empty strings; context as its
  snippet; confidence as it is. Neither the note nor any other property is read.
\<close>

fun raw_entities :: "json \<Rightarrow> json list" where
  "raw_entities (JObj kv) = (case map_of kv (ascii ''entities'') of Some (JArr es) \<Rightarrow> es | _ \<Rightarrow> [])"
| "raw_entities _ = []"

fun raw_prop :: "json \<Rightarrow> string \<Rightarrow> json option" where
  "raw_prop (JObj kv) k = map_of kv (ascii k)"
| "raw_prop _ k = None"

fun expected_text :: "json option \<Rightarrow> jsstring option" where
  "expected_text (Some (JStr s)) = Some (trim s)"
| "expected_text _ = None"

fun expected_taxonomy_id :: "(real \<Rightarrow> jsstring) \<Rightarrow> json option \<Rightarrow> jsstring option" where
  "expected_taxonomy_id num_str (Some (JStr s)) = (if s = [] then None else Some s)"
| "expected_taxonomy_id num_str (Some (JNum n)) = (if n = 0 then None else Some (num_str n))"
| "expected_taxonomy_id num_str _ = None"

fun nonempty_strings :: "json list \<Rightarrow> jsstring list" where
  "nonempty_strings [] = []"
| "nonempty_strings (JStr s # vs) = (if s = [] then nonempty_strings vs else s # nonempty_strings vs)"
| "nonempty_strings (v # vs) = nonempty_strings vs"

fun expected_resistance :: "json option \<Rightarrow> jsstring list" where
  "expected_resistance (Some (JStr s)) = (if s = [] then [] else [s])"
| "expected_resistance (Some (JArr vs)) = nonempty_strings vs"
| "expected_resistance _ = []"

fun expected_context :: "json option \<Rightarrow> jsstring option" where
  "expected_context (Some (JObj kv)) =
     (case map_of kv (ascii ''snippet'') of Some (JStr s) \<Rightarrow> Some s | _ \<Rightarrow> None)"
| "expected_context _ = None"

fun expected_confidence :: "json option \<Rightarrow> real option" where
  "expected_confidence (Some (JNum r)) = Some r"
| "expected_confidence _ = None"

definition expected_entity :: "(real \<Rightarrow> jsstring) \<Rightarrow> jsstring \<Rightarrow> json \<Rightarrow> MicrobialEntity" where
  "expected_entity num_str u raw =
     \<lparr>id' = u,
      genus = expected_text (raw_prop raw ''genus''),
      species = expected_text (raw_prop raw ''species''),
      subspecies = expected_text (raw_prop raw ''subspecies''),
      serovar = expected_text (raw_prop raw ''serovar''),
      strain = expected_text (raw_prop raw ''strain''),
      mlst_st = expected_text (raw_prop raw ''mlst_st''),
      taxonomy_id = expected_taxonomy_id num_str (raw_prop raw ''taxonomy_id''),
      source = expected_text (raw_prop raw ''source''),
      resistance = Some (expected_resistance (raw_prop raw ''resistance'')),
      pathogenicity = expected_text (raw_prop raw ''pathogenicity''),
      context' = expected_context (raw_prop raw ''context''),
      confidence = expected_confidence (raw_prop raw ''confidence'')\<rparr>"



section \<open>Sample values\<close>

text \<open>
  A host for the concrete evaluations below. On natural numbers the number-to-string
  conversion of JavaScript is the decimal numeral; \<open>sample_num_str\<close> is applied to
  those only.
\<close>

function decimal :: "nat \<Rightarrow> jsstring" where
  "decimal n =
     (if n < 10 then [0x30 + of_nat n] else decimal (n div 10) @ [0x30 + of_nat (n mod 10)])"
  by pat_completeness auto
termination
  by (relation "measure id") auto

declare decimal.simps [simp del]

definition sample_num_str :: "real \<Rightarrow> jsstring" where
  "sample_num_str r = decimal (nat \<lfloor>r\<rfloor>)"

definition sample_date_text :: "int \<Rightarrow> jsstring" where
  "sample_date_text t = ascii ''1970-01-01T00:00:00.000Z''"

definition sample_ids :: rng where
  "sample_ids n = ascii ''id-'' @ decimal n"

definition salmonella :: MicrobialEntity where
  "salmonella = \<lparr>id' = ascii ''id-0'', genus = Some (ascii ''Salmonella''),
     species = Some (ascii ''enterica''), subspecies = None,
     serovar = Some (ascii ''Typhimurium''), strain = None, mlst_st = None,
     taxonomy_id = None, source = None, resistance = Some [ascii ''ampicillin''],
     pathogenicity = None, context' = None, confidence = None\<rparr>"

definition bare_entity :: MicrobialEntity where
  "bare_entity = \<lparr>id' = ascii ''id-1'', genus = None, species = None, subspecies = None,
     serovar = None, strain = None, mlst_st = None, taxonomy_id = None, source = None,
     resistance = None, pathogenicity = None, context' = None, confidence = None\<rparr>"

text \<open>A text of \<open>n\<close> characters outside the basic plane (U+1F600), two code units each.\<close>

definition grinning_faces :: "nat \<Rightarrow> jsstring" where
  "grinning_faces n = concat (replicate n [0xD83D, 0xDE00])"

text \<open>
  A text of 701 code units without a surrogate pair: a high surrogate on its own, then
  700 letters.
\<close>

definition lone_surrogate_text :: jsstring where
  "lone_surrogate_text = 0xD83D # replicate 700 0x41"

text \<open>A response whose only entity has the empty string as taxonomy_id.\<close>

definition empty_id_response :: json where
  "empty_id_response =
     JObj [(ascii ''entities'', JArr [JObj [(ascii ''taxonomy_id'', JStr [])]])]"

definition ecoli :: MicrobialEntity where
  "ecoli = \<lparr>id' = ascii ''id-2'', genus = None, species = None, subspecies = None,
     serovar = None, strain = None, mlst_st = None, taxonomy_id = None,
     source = Some (ascii ''soil, wet''),
     resistance = Some [ascii ''ampicillin'', ascii ''tetracycline''],
     pathogenicity = None, context' = None, confidence = None\<rparr>"

definition sample_record :: ExtractionRecord where
  "sample_record =
     \<lparr>record_id = ascii ''id-9'', fileName = ascii ''paper.pdf'', fileSize = 10,
      processedAt = ascii ''1970-01-01T00:00:00.000Z'', durationMs = 0,
      summary = \<lparr>organismCount = 2, uniqueSpecies = 1, resistanceCount = 1, sourceCount = 0,
        pathogenicityCount = 0, keyFindings = [ascii ''Salmonella enterica'', unnamed_entity]\<rparr>,
      entities = [salmonella, bare_entity], rawTextPreview = ascii ''text''\<rparr>"

definition sample_stringify :: "ExtractionRecord \<Rightarrow> jsstring" where
  "sample_stringify r = ascii ''{}''"

definition sample_response :: json where
  "sample_response = JObj [(ascii ''entities'', JArr [
      JObj [(ascii ''id'', JStr (ascii ''from-model'')),
            (ascii ''genus'', JStr (ascii '' Escherichia '')),
            (ascii ''species'', JStr (ascii ''coli'')),
            (ascii ''strain'', JNull),
            (ascii ''taxonomy_id'', JNum 562),
            (ascii ''resistance'', JStr (ascii ''ampicillin'')),
            (ascii ''context'', JObj [(ascii ''snippet'', JStr (ascii ''E. coli was found''))]),
            (ascii ''confidence'', JNum 0.5),
            (ascii ''note'', JStr (ascii ''checked''))],
      JObj [(ascii ''genus'', JStr (ascii ''Salmonella'')),
            (ascii ''taxonomy_id'', JNum 0),
            (ascii ''resistance'',
               JArr [JStr (ascii ''ampicillin''), JStr [], JStr (ascii ''tetracycline'')])],
      JObj [(ascii ''taxonomy_id'', JStr (ascii ''0''))]])]"


definition bad_confidence_response :: json where
  "bad_confidence_response = JObj [(ascii ''entities'', JArr [
      JObj [(ascii ''genus'', JStr (ascii ''Salmonella''))],
      JObj [(ascii ''genus'', JStr (ascii ''Escherichia'')), (ascii ''confidence'', JNum 1.5)]])]"

text \<open>The text of that response, as the model would send it.\<close>

definition dq :: "string \<Rightarrow> jsstring" where
  "dq s = [0x22] @ ascii s @ [0x22]"

definition bad_confidence_text :: jsstring where
  "bad_confidence_text =
     ascii ''{'' @ dq ''entities'' @ ascii '':[{'' @ dq ''genus'' @ ascii '':'' @ dq ''Salmonella''
       @ ascii ''},{'' @ dq ''genus'' @ ascii '':'' @ dq ''Escherichia'' @ ascii '',''
       @ dq ''confidence'' @ ascii '':1.5}]}''"

text \<open>A response body whose first choice has the given content.\<close>

definition envelope :: "json \<Rightarrow> json" where
  "envelope content = JObj [(ascii ''choices'',
     JArr [JObj [(ascii ''message'', JObj [(ascii ''content'', content)])]])]"


text \<open>
  A parser that agrees with \<open>JSON.parse\<close> on the texts the evaluations below use (and
  reports a syntax error on every other text).
\<close>

definition sample_parse :: "jsstring \<Rightarrow> json option" where
  "sample_parse text =
     (if text = ascii ''[]'' then Some (JArr [])
      else if text = ascii ''[null]'' then Some (JArr [JNull])
      else if text = ascii ''{}'' then Some (JObj [])
      else if text = ascii ''null'' then Some JNull
      else if text = bad_confidence_text then Some bad_confidence_response
      else None)"



section \<open>Auxiliary facts\<close>

lemma decimal_nonempty: "decimal n \<noteq> []"
  by (subst decimal.simps) simp

lemma length_filter_Boolean: "length (filter_Boolean xs) \<le> length xs"
  by (induction xs rule: filter_Boolean.induct) auto

lemma foldl_add_sum: "foldl (\<lambda>acc x. acc + f x) a xs = a + sum_list (map f xs)"
  by (induction xs arbitrary: a) (auto simp: add.assoc)

lemma resistance_total:
  "(\<Sum>entity\<leftarrow>ents. case resistance entity of None \<Rightarrow> 0 | Some r \<Rightarrow> length r)
     = length (concat (map resistance_strings ents))"
  by (induction ents) (auto simp: resistance_strings_def split: option.splits)

lemma join_Cons: "join sep (x # xs) = x @ (if xs = [] then [] else sep @ join sep xs)"
  by (cases xs) simp_all

lemma join_eq_Nil: "\<forall>p \<in> set ps. p \<noteq> [] \<Longrightarrow> join sep ps = [] \<longleftrightarrow> ps = []"
  by (cases ps) (simp_all add: join_Cons del: join.simps(2,3))

lemma filter_Boolean_usable: "filter_Boolean xs = concat (map usable_part xs)"
  by (induction xs rule: filter_Boolean.induct) (auto simp: truthy_def)

lemma filter_Boolean_member: "p \<in> set (filter_Boolean xs) \<Longrightarrow> p \<noteq> []"
  by (induction xs rule: filter_Boolean.induct) (auto simp: truthy_def split: if_splits)

lemma key_finding_label: "key_finding entity = label_of entity"
proof -
  let ?ps = "filter_Boolean [genus entity, species entity, strain entity]"
  have "\<forall>p \<in> set ?ps. p \<noteq> []"
    using filter_Boolean_member by blast
  then have e: "join [0x20] ?ps = [] \<longleftrightarrow> ?ps = []"
    by (rule join_eq_Nil)
  have p: "?ps = usable_part (genus entity) @ usable_part (species entity) @ usable_part (strain entity)"
    by (simp add: filter_Boolean_usable)
  have sp: "ascii '' '' = [0x20]" by (simp add: ascii_def)
  show ?thesis
    unfolding key_finding_def label_of_def Let_def truthy_def sp
    using e unfolding p by simp
qed


section \<open>The summary of a record\<close>

text \<open>
  C3. Whenever the builder returns a record (it does for every completion time a
  \<open>Date\<close> can hold), the summary's organismCount is the number of entities,
  uniqueSpecies is at most organismCount, and resistanceCount is the number of all
  resistance strings of all entities, an entity without a list adding none.
\<close>

theorem summary_counts:
  "(\<bar>finishedAt\<bar> \<le> 8640000000000000 \<longrightarrow>
      (\<exists>r g1. buildExtractionRecord date_text g fname fsize startedAt finishedAt ents rawText = Inr (r, g1)))
   \<and> (\<forall>r g1. buildExtractionRecord date_text g fname fsize startedAt finishedAt ents rawText = Inr (r, g1) \<longrightarrow>
        organismCount (summary r) = length ents
      \<and> uniqueSpecies (summary r) \<le> organismCount (summary r)
      \<and> resistanceCount (summary r) = length (concat (map resistance_strings ents)))"
proof -
  have u: "length (remdups (filter_Boolean (map species_key ents))) \<le> length ents"
    by (rule order_trans [OF length_remdups_leq])
       (use length_filter_Boolean [of "map species_key ents"] in simp)
  show ?thesis
    using u
    by (auto simp: buildExtractionRecord_def toISOString_def randomUUID_def Let_def foldl_add_sum
        resistance_total split: sum.splits)
qed

theorem summary_counts_witness:
  "\<bar>0::int\<bar> \<le> 8640000000000000 \<and>
   (\<exists>r g1. buildExtractionRecord sample_date_text sample_ids (ascii ''a.pdf'') 10 0 0
       [salmonella, bare_entity, salmonella] (ascii ''text'') = Inr (r, g1)
     \<and> organismCount (summary r) = 3 \<and> uniqueSpecies (summary r) = 1
     \<and> resistanceCount (summary r) = 2)"
proof -
  have u: "uniqueSpecies (summary r) = 1"
    if "buildExtractionRecord sample_date_text sample_ids (ascii ''a.pdf'') 10 0 0
       [salmonella, bare_entity, salmonella] (ascii ''text'') = Inr (r, g1)" for r g1
    using that
    by (auto simp: buildExtractionRecord_def toISOString_def randomUUID_def Let_def
        species_key_def salmonella_def bare_entity_def truthy_def ascii_def)
  show ?thesis
    using summary_counts [of 0 sample_date_text sample_ids "ascii ''a.pdf''" 10 0
        "[salmonella, bare_entity, salmonella]" "ascii ''text''"] u
    by (auto simp: resistance_strings_def salmonella_def bare_entity_def)
qed

text \<open>
  C8. Whenever the builder returns a record, keyFindings has min(5, number of entities)
  labels, and the label at each position is that of the entity at the same position:
  genus, species and strain with absent parts left out, joined by single spaces, or the
  placeholder when no part is usable.
\<close>

theorem key_findings_labels:
  "(\<bar>finishedAt\<bar> \<le> 8640000000000000 \<longrightarrow>
      (\<exists>r g1. buildExtractionRecord date_text g fname fsize startedAt finishedAt ents rawText = Inr (r, g1)))
   \<and> (\<forall>r g1. buildExtractionRecord date_text g fname fsize startedAt finishedAt ents rawText = Inr (r, g1) \<longrightarrow>
        length (keyFindings (summary r)) = min 5 (length ents)
      \<and> (\<forall>i < min 5 (length ents). keyFindings (summary r) ! i = label_of (ents ! i)))"
  by (auto simp: buildExtractionRecord_def toISOString_def randomUUID_def Let_def key_finding_label
      split: sum.splits)

theorem key_findings_labels_witness:
  "\<bar>0::int\<bar> \<le> 8640000000000000 \<and>
   (\<exists>r g1. buildExtractionRecord sample_date_text sample_ids (ascii ''a.pdf'') 10 0 0
       [salmonella, bare_entity] (ascii ''text'') = Inr (r, g1)
     \<and> length (keyFindings (summary r)) = 2
     \<and> keyFindings (summary r) ! 0 = ascii ''Salmonella enterica''
     \<and> keyFindings (summary r) ! 1 = unnamed_entity)"
proof -
  have l0: "label_of salmonella = ascii ''Salmonella enterica''"
    by (simp add: label_of_def salmonella_def ascii_def)
  have l1: "label_of bare_entity = unnamed_entity"
    by (simp add: label_of_def bare_entity_def)
  have v: "\<bar>0::int\<bar> \<le> 8640000000000000" by simp
  from key_findings_labels [of 0 sample_date_text sample_ids "ascii ''a.pdf''" 10 0
        "[salmonella, bare_entity]" "ascii ''text''"] v
  obtain r g1 where
    r: "buildExtractionRecord sample_date_text sample_ids (ascii ''a.pdf'') 10 0 0
       [salmonella, bare_entity] (ascii ''text'') = Inr (r, g1)"
    and len: "length (keyFindings (summary r)) = min 5 (length [salmonella, bare_entity])"
    and lab: "\<forall>i < min 5 (length [salmonella, bare_entity]).
        keyFindings (summary r) ! i = label_of ([salmonella, bare_entity] ! i)"
    by blast
  from lab have "keyFindings (summary r) ! 0 = label_of salmonella"
    and "keyFindings (summary r) ! 1 = label_of bare_entity"
    by simp_all
  with r len l0 l1 v show ?thesis by simp
qed



section \<open>The preview of the raw text\<close>

lemma scalars_grinning: "scalars (grinning_faces n) = replicate n [0xD83D, 0xDE00]"
  by (induction n) (simp_all add: grinning_faces_def is_high_surrogate_def is_low_surrogate_def)

lemma length_grinning: "length (grinning_faces n) = 2 * n"
  by (induction n) (simp_all add: grinning_faces_def)

lemma scalars_no_pair:
  "\<not> has_surrogate_pair s \<Longrightarrow> scalars s = map (\<lambda>c. [c]) s"
  by (induction s rule: scalars.induct) simp_all

lemma scalar_prefix_no_pair:
  "\<not> has_surrogate_pair s \<Longrightarrow> scalar_prefix n s = take n s"
  by (simp add: scalar_prefix_def scalars_no_pair take_map)

lemma no_pair_replicate:
  "\<not> is_high_surrogate a \<Longrightarrow> \<not> is_low_surrogate a \<Longrightarrow> \<not> has_surrogate_pair (h # replicate n a)"
proof (induction n arbitrary: h)
  case 0
  then show ?case by simp
next
  case (Suc n)
  from Suc.IH [OF Suc.prems, of a] Suc.prems show ?case by simp
qed

text \<open>
  C4, as amended. Whenever the builder returns a record, rawTextPreview is the first 600
  UTF-16 code units of rawText; a rawText of at most 600 code units is kept unchanged;
  and for a rawText without a surrogate pair (no high surrogate directly followed by a
  low one) that is the first 600 characters counted in Unicode scalar units.
\<close>

theorem preview_code_units:
  "(\<bar>finishedAt\<bar> \<le> 8640000000000000 \<longrightarrow>
      (\<exists>r g1. buildExtractionRecord date_text g fname fsize startedAt finishedAt ents rawText = Inr (r, g1)))
   \<and> (\<forall>r g1. buildExtractionRecord date_text g fname fsize startedAt finishedAt ents rawText = Inr (r, g1) \<longrightarrow>
        rawTextPreview r = take 600 rawText
      \<and> (length rawText \<le> 600 \<longrightarrow> rawTextPreview r = rawText)
      \<and> (\<not> has_surrogate_pair rawText \<longrightarrow> rawTextPreview r = scalar_prefix 600 rawText))"
  by (auto simp: buildExtractionRecord_def toISOString_def randomUUID_def Let_def scalar_prefix_no_pair
      split: sum.splits)

theorem preview_code_units_witness:
  "\<bar>0::int\<bar> \<le> 8640000000000000
   \<and> length lone_surrogate_text = 701
   \<and> \<not> has_surrogate_pair lone_surrogate_text
   \<and> (\<exists>r g1. buildExtractionRecord sample_date_text sample_ids (ascii ''a.pdf'') 10 0 0 []
          lone_surrogate_text = Inr (r, g1)
        \<and> rawTextPreview r = 0xD83D # replicate 599 0x41
        \<and> rawTextPreview r = scalar_prefix 600 lone_surrogate_text)
   \<and> length (ascii ''abc'') \<le> 600
   \<and> (\<exists>r g1. buildExtractionRecord sample_date_text sample_ids (ascii ''a.pdf'') 10 0 0 []
          (ascii ''abc'') = Inr (r, g1)
        \<and> rawTextPreview r = ascii ''abc'')"
proof -
  have v: "\<bar>0::int\<bar> \<le> 8640000000000000" by simp
  have n: "\<not> has_surrogate_pair lone_surrogate_text"
    unfolding lone_surrogate_text_def
    by (rule no_pair_replicate) (simp_all add: is_high_surrogate_def is_low_surrogate_def)
  have len: "length lone_surrogate_text = 701"
    by (simp add: lone_surrogate_text_def)
  have t: "take 600 lone_surrogate_text = 0xD83D # replicate 599 0x41"
    by (simp add: lone_surrogate_text_def)
  have l: "length (ascii ''abc'') \<le> 600"
    by (simp add: ascii_def)
  from preview_code_units [of 0 sample_date_text sample_ids "ascii ''a.pdf''" 10 0 "[]"
      lone_surrogate_text] v n
  obtain r g1 where
    "buildExtractionRecord sample_date_text sample_ids (ascii ''a.pdf'') 10 0 0 []
          lone_surrogate_text = Inr (r, g1)"
    and "rawTextPreview r = take 600 lone_surrogate_text"
    and "rawTextPreview r = scalar_prefix 600 lone_surrogate_text"
    by blast
  then have a: "\<exists>r g1. buildExtractionRecord sample_date_text sample_ids (ascii ''a.pdf'') 10 0 0 []
          lone_surrogate_text = Inr (r, g1)
        \<and> rawTextPreview r = 0xD83D # replicate 599 0x41
        \<and> rawTextPreview r = scalar_prefix 600 lone_surrogate_text"
    unfolding t by blast
  from preview_code_units [of 0 sample_date_text sample_ids "ascii ''a.pdf''" 10 0 "[]" "ascii ''abc''"] v l
  have b: "\<exists>r g1. buildExtractionRecord sample_date_text sample_ids (ascii ''a.pdf'') 10 0 0 []
          (ascii ''abc'') = Inr (r, g1) \<and> rawTextPreview r = ascii ''abc''"
    by blast
  from v len n a l b show ?thesis by blast
qed

text \<open>
  C4, as stated, fails: a text of 301 characters outside the basic plane has no more
  than 600 characters in scalar units, yet its preview is neither the text itself nor
  its first 600 characters; it is the first 300 of them.
\<close>

theorem preview_scalar_counterexample:
  "length (scalars (grinning_faces 301)) \<le> 600
   \<and> map_sum id (rawTextPreview \<circ> fst)
        (buildExtractionRecord sample_date_text sample_ids (ascii ''a.pdf'') 10 0 0 [] (grinning_faces 301))
      = Inr (take 600 (grinning_faces 301))
   \<and> take 600 (grinning_faces 301) \<noteq> grinning_faces 301
   \<and> take 600 (grinning_faces 301) \<noteq> scalar_prefix 600 (grinning_faces 301)"
proof -
  have a: "length (scalars (grinning_faces 301)) \<le> 600"
    by (simp add: scalars_grinning)
  have b: "take 600 (grinning_faces 301) \<noteq> grinning_faces 301"
  proof
    assume "take 600 (grinning_faces 301) = grinning_faces 301"
    then have "length (take 600 (grinning_faces 301)) = length (grinning_faces 301)"
      by (rule arg_cong)
    then show False
      unfolding length_take length_grinning by simp
  qed
  have "take 600 (scalars (grinning_faces 301)) = scalars (grinning_faces 301)"
    using a by (rule take_all)
  then have "scalar_prefix 600 (grinning_faces 301) = concat (scalars (grinning_faces 301))"
    unfolding scalar_prefix_def by (rule arg_cong)
  then have c: "scalar_prefix 600 (grinning_faces 301) = grinning_faces 301"
    unfolding scalars_grinning unfolding grinning_faces_def .
  have d: "map_sum id (rawTextPreview \<circ> fst)
        (buildExtractionRecord sample_date_text sample_ids (ascii ''a.pdf'') 10 0 0 [] rawText)
      = Inr (take 600 rawText)" for rawText
    by (simp add: buildExtractionRecord_def toISOString_def randomUUID_def Let_def)
  show ?thesis
    using a b d [of "grinning_faces 301"] unfolding c by blast
qed




section \<open>The names of the exported files\<close>

lemma replace_pdf_paper: "replace_pdf (ascii ''paper.pdf'') = ascii ''paper.pdf''"
  by (simp add: replace_pdf_def ascii_def)

text \<open>
  C5, at the file name "paper.pdf": both exports keep the extension, where the
  specification's reading removes it. The pattern of the source asks for a backslash
  before the dot, so what it removes is the ending of a name such as "paper", a
  backslash, ".pdf".
\<close>

theorem pdf_extension_kept:
  "file_name (downloadRecordAsJson stringify (r\<lparr>fileName := ascii ''paper.pdf''\<rparr>))
      = ascii ''paper.pdf-micr-ai.json''
   \<and> file_name (downloadRecordAsCsv num_str (r\<lparr>fileName := ascii ''paper.pdf''\<rparr>))
      = ascii ''paper.pdf-micr-ai.csv''
   \<and> without_pdf (ascii ''paper.pdf'') @ ascii ''-micr-ai.json'' = ascii ''paper-micr-ai.json''
   \<and> replace_pdf (ascii ''paper'' @ [0x5C] @ ascii ''.pdf'') = ascii ''paper''"
proof -
  have a: "without_pdf (ascii ''paper.pdf'') = ascii ''paper''"
    by (simp add: without_pdf_def ends_with_pdf_def ascii_def)
  have b: "replace_pdf (ascii ''paper'' @ [0x5C] @ ascii ''.pdf'') = ascii ''paper''"
    by (simp add: replace_pdf_def ascii_def is_line_terminator_def eq_ignore_case_def)
  show ?thesis
    unfolding a b
    by (simp add: downloadRecordAsJson_def downloadRecordAsCsv_def Let_def replace_pdf_paper)
       (simp add: ascii_def)
qed


theorem pdf_extension_kept_witness:
  "fileName sample_record = ascii ''paper.pdf''
   \<and> file_name (downloadRecordAsJson sample_stringify sample_record) = ascii ''paper.pdf-micr-ai.json''
   \<and> file_name (downloadRecordAsCsv sample_num_str sample_record) = ascii ''paper.pdf-micr-ai.csv''"
proof -
  have "sample_record\<lparr>fileName := ascii ''paper.pdf''\<rparr> = sample_record"
    by (simp add: sample_record_def)
  with pdf_extension_kept [of sample_stringify sample_record sample_num_str]
  show ?thesis by (simp add: sample_record_def)
qed


section \<open>The cells of the CSV export\<close>

lemma doubled_eq: "double_quotes s = doubled s"
  by (induction s) (simp_all add: double_quotes_def)

lemma set_doubled: "set (doubled s) = set s"
  by (induction s) auto

lemma csv_cell_text: "csv_cell num_str (of_opt StrV t) = scalar_cell t"
  by (cases t) (simp_all add: doubled_eq set_doubled quoted_def Let_def)

lemma csv_cell_number: "csv_cell num_str (of_opt NumV c) = scalar_cell (map_option num_str c)"
  by (cases c) (simp_all add: doubled_eq set_doubled quoted_def Let_def)

lemma csv_cell_list: "csv_cell num_str (of_opt ArrV r) = list_cell r"
  by (cases r) (simp_all add: doubled_eq quoted_def ascii_def)

lemma header_props:
  "entity_prop e (ascii ''genus'') = of_opt StrV (genus e)"
  "entity_prop e (ascii ''species'') = of_opt StrV (species e)"
  "entity_prop e (ascii ''subspecies'') = of_opt StrV (subspecies e)"
  "entity_prop e (ascii ''serovar'') = of_opt StrV (serovar e)"
  "entity_prop e (ascii ''strain'') = of_opt StrV (strain e)"
  "entity_prop e (ascii ''mlst_st'') = of_opt StrV (mlst_st e)"
  "entity_prop e (ascii ''taxonomy_id'') = of_opt StrV (taxonomy_id e)"
  "entity_prop e (ascii ''source'') = of_opt StrV (source e)"
  "entity_prop e (ascii ''resistance'') = of_opt ArrV (resistance e)"
  "entity_prop e (ascii ''pathogenicity'') = of_opt StrV (pathogenicity e)"
  "entity_prop e (ascii ''context'') = of_opt StrV (context' e)"
  "entity_prop e (ascii ''confidence'') = of_opt NumV (confidence e)"
  by (simp_all add: entity_prop_def ascii_def)

text \<open>
  C6, as amended. Every row of the CSV export is its twelve cells joined by commas,
  where the resistance cell of an entity with a resistance list is always quoted, its
  elements joined by "; " and double quotes doubled; an absent value (the resistance
  list included) is an empty unquoted cell; and any other scalar has its double quotes
  doubled and is quoted exactly when it holds a comma or a newline.
\<close>

theorem csv_cells:
  "csv_row num_str e = join [0x2C] (row_cells num_str e)
   \<and> blob_text (downloadRecordAsCsv num_str r)
       = join [0x0A] (join [0x2C] headers # map (\<lambda>e. join [0x2C] (row_cells num_str e)) (entities r))"
proof -
  have c: "ascii '','' = [0x2C]" by (simp add: ascii_def)
  have row: "csv_row num_str e = join [0x2C] (row_cells num_str e)" for e
    unfolding csv_row_def headers_def list.map header_props csv_cell_text csv_cell_number
      csv_cell_list c row_cells_def ..
  have rows: "csv_row num_str = (\<lambda>e. join [0x2C] (row_cells num_str e))"
    by (rule ext) (rule row)
  show ?thesis
    by (simp add: row rows downloadRecordAsCsv_def Let_def c)
qed

theorem csv_cells_witness:
  "csv_row sample_num_str ecoli
     = ascii '',,,,,,,'' @ [0x22] @ ascii ''soil, wet'' @ [0x22] @ ascii '','' @ [0x22]
         @ ascii ''ampicillin; tetracycline'' @ [0x22] @ ascii '',,,''
   \<and> csv_row sample_num_str bare_entity = ascii '',,,,,,,,,,,''"
proof -
  have "join [0x2C] (row_cells sample_num_str ecoli)
     = ascii '',,,,,,,'' @ [0x22] @ ascii ''soil, wet'' @ [0x22] @ ascii '','' @ [0x22]
         @ ascii ''ampicillin; tetracycline'' @ [0x22] @ ascii '',,,''"
    by (simp add: row_cells_def ecoli_def ascii_def)
  moreover have "join [0x2C] (row_cells sample_num_str bare_entity) = ascii '',,,,,,,,,,,''"
    by (simp add: row_cells_def bare_entity_def ascii_def)
  ultimately show ?thesis
    using csv_cells [of sample_num_str ecoli sample_record]
      csv_cells [of sample_num_str bare_entity sample_record]
    by simp
qed

text \<open>
  C6, as stated, fails for an entity without a resistance list: its resistance cell is
  empty, not the quoted text of an empty list.
\<close>

theorem resistance_cell_counterexample:
  "resistance bare_entity = None
   \<and> csv_cell sample_num_str (entity_prop bare_entity (ascii ''resistance'')) = []
   \<and> csv_cell sample_num_str (entity_prop bare_entity (ascii ''resistance''))
       \<noteq> [0x22] @ doubled (join (ascii ''; '') (resistance_strings bare_entity)) @ [0x22]"
  by (simp add: bare_entity_def entity_prop_def ascii_def)



section \<open>Loading the history\<close>

text \<open>
  C7. \<open>loadStoredRecords\<close> returns a list in every environment and never raises. An
  absent key, a text that is not JSON and a JSON value that is not an array all give the
  empty list; a stored array is returned as it is.
\<close>

theorem load_never_raises:
  "(\<exists>records. loadStoredRecords parse h = Inr records)
   \<and> (h = Store m \<and> m RECORDS_KEY = None \<longrightarrow> loadStoredRecords parse h = Inr [])
   \<and> (h = Store m \<and> m RECORDS_KEY = Some text \<and> parse text = None
        \<longrightarrow> loadStoredRecords parse h = Inr [])
   \<and> (h = Store m \<and> m RECORDS_KEY = Some text \<and> parse text = Some v \<and> \<not> is_array v
        \<longrightarrow> loadStoredRecords parse h = Inr [])
   \<and> (h = Store m \<and> m RECORDS_KEY = Some text \<and> text \<noteq> [] \<and> parse text = Some (JArr xs)
        \<longrightarrow> loadStoredRecords parse h = Inr xs)"
proof -
  have 1: "\<exists>records. loadStoredRecords parse h = Inr records"
    by (cases h) (simp_all add: loadStoredRecords_def split: sum.splits)
  have 2: "loadStoredRecords parse (Store m) = Inr []" if "m RECORDS_KEY = None"
    using that by (simp add: loadStoredRecords_def load_body_def)
  have 3: "loadStoredRecords parse (Store m) = Inr []"
    if "m RECORDS_KEY = Some text" "parse text = None"
    using that by (simp add: loadStoredRecords_def load_body_def)
  have 4: "loadStoredRecords parse (Store m) = Inr []"
    if "m RECORDS_KEY = Some text" "parse text = Some v" "\<not> is_array v"
    using that by (cases v) (simp_all add: loadStoredRecords_def load_body_def)
  have 5: "loadStoredRecords parse (Store m) = Inr xs"
    if "m RECORDS_KEY = Some text" "text \<noteq> []" "parse text = Some (JArr xs)"
    using that by (simp add: loadStoredRecords_def load_body_def truthy_def)
  show ?thesis
    using 1 2 3 4 5 by blast
qed

theorem load_never_raises_witness:
  "loadStoredRecords sample_parse (Store Map.empty) = Inr []
   \<and> loadStoredRecords sample_parse (Store [RECORDS_KEY \<mapsto> ascii ''not json'']) = Inr []
   \<and> loadStoredRecords sample_parse (Store [RECORDS_KEY \<mapsto> ascii ''{}'']) = Inr []
   \<and> loadStoredRecords sample_parse (Store [RECORDS_KEY \<mapsto> ascii ''[null]'']) = Inr [JNull]
   \<and> loadStoredRecords sample_parse NoWindow = Inr []
   \<and> loadStoredRecords sample_parse Refused = Inr []"
proof -
  have p1: "sample_parse (ascii ''not json'') = None"
    and p2: "sample_parse (ascii ''{}'') = Some (JObj [])"
    and p3: "sample_parse (ascii ''[null]'') = Some (JArr [JNull])"
    and p4: "ascii ''[null]'' \<noteq> []"
    by (simp_all add: sample_parse_def bad_confidence_text_def dq_def ascii_def)
  have a: "loadStoredRecords sample_parse (Store Map.empty) = Inr []"
    using load_never_raises [of sample_parse "Store Map.empty" Map.empty] by simp
  have b: "loadStoredRecords sample_parse (Store [RECORDS_KEY \<mapsto> ascii ''not json'']) = Inr []"
    using load_never_raises [of sample_parse "Store [RECORDS_KEY \<mapsto> ascii ''not json'']"
        "[RECORDS_KEY \<mapsto> ascii ''not json'']" "ascii ''not json''"] p1 by simp
  have c: "loadStoredRecords sample_parse (Store [RECORDS_KEY \<mapsto> ascii ''{}'']) = Inr []"
    using load_never_raises [of sample_parse "Store [RECORDS_KEY \<mapsto> ascii ''{}'']"
        "[RECORDS_KEY \<mapsto> ascii ''{}'']" "ascii ''{}''" "JObj []"] p2 by simp
  have d: "loadStoredRecords sample_parse (Store [RECORDS_KEY \<mapsto> ascii ''[null]'']) = Inr [JNull]"
    using load_never_raises [of sample_parse "Store [RECORDS_KEY \<mapsto> ascii ''[null]'']"
        "[RECORDS_KEY \<mapsto> ascii ''[null]'']" "ascii ''[null]''" _ "[JNull]"] p3 p4 by simp
  have e: "loadStoredRecords sample_parse NoWindow = Inr []"
    "loadStoredRecords sample_parse Refused = Inr []"
    by (simp_all add: loadStoredRecords_def load_body_def)
  show ?thesis using a b c d e by simp
qed




section \<open>The normalizer against its specification\<close>

lemma text_field_iff:
  "optional_nullable z_string_trim v = Some x \<longleftrightarrow> absent_or is_string v \<and> x = expected_text v"
  by (induction is_string v rule: absent_or.induct) (auto simp: z_string_trim_def)

lemma note_field_iff:
  "(\<exists>x. optional_nullable z_string v = Some x) \<longleftrightarrow> absent_or is_string v"
  by (induction is_string v rule: absent_or.induct) auto

lemma taxonomy_field:
  "optional_nullable z_string_or_number v = Some x \<Longrightarrow>
     absent_or is_string_or_number v \<and> taxonomy_id_of num_str x = expected_taxonomy_id num_str v"
  by (induction is_string_or_number v rule: absent_or.induct)
     (auto simp: z_string_or_number_def truthy_def)

lemma taxonomy_field_ex:
  "absent_or is_string_or_number v \<Longrightarrow> \<exists>x. optional_nullable z_string_or_number v = Some x"
  by (induction is_string_or_number v rule: absent_or.induct)
     (auto simp: z_string_or_number_def)

lemma z_all_strings:
  "z_all z_string vs = Some xs \<Longrightarrow> list_all is_string vs \<and> filter truthy xs = nonempty_strings vs"
proof (induction vs arbitrary: xs)
  case Nil
  then show ?case by simp
next
  case (Cons v vs)
  then show ?case
    by (cases v) (auto simp: truthy_def split: option.splits)
qed

lemma z_all_strings_ex: "list_all is_string vs \<Longrightarrow> \<exists>xs. z_all z_string vs = Some xs"
proof (induction vs)
  case Nil
  then show ?case by simp
next
  case (Cons v vs)
  then show ?case by (cases v) auto
qed

lemma resistance_field:
  "optional_nullable z_strings_or_string v = Some x \<Longrightarrow>
     absent_or is_string_or_string_list v \<and> resistance_of x = expected_resistance v"
proof (cases v)
  case None
  then show "optional_nullable z_strings_or_string v = Some x \<Longrightarrow> ?thesis" by auto
next
  case (Some w)
  assume "optional_nullable z_strings_or_string v = Some x"
  with Some show ?thesis
    by (cases w)
       (auto simp: z_strings_or_string_def truthy_def split: option.splits dest: z_all_strings)
qed

lemma resistance_field_ex:
  "absent_or is_string_or_string_list v \<Longrightarrow> \<exists>x. optional_nullable z_strings_or_string v = Some x"
  by (induction is_string_or_string_list v rule: absent_or.induct)
     (auto simp: z_strings_or_string_def split: option.splits dest: z_all_strings_ex)

lemma context_field_iff:
  "optional_nullable z_context_object v = Some x \<longleftrightarrow>
     absent_or is_snippet_object v \<and> x = expected_context v"
proof (cases v)
  case None
  then show ?thesis by auto
next
  case (Some w)
  show ?thesis
  proof (cases w)
    case (JObj kv)
    show ?thesis
    proof (cases "map_of kv (ascii ''snippet'')")
      case None
      with Some JObj show ?thesis by simp
    next
      case (Some u)
      with \<open>v = Some w\<close> JObj show ?thesis by (cases u) auto
    qed
  qed (use Some in auto)
qed

lemma confidence_field_iff:
  "optional_nullable z_number_min0_max1 v = Some x \<longleftrightarrow>
     absent_or is_unit_number v \<and> x = expected_confidence v"
  by (induction is_unit_number v rule: absent_or.induct)
     (auto simp: z_number_min0_max1_def)

lemma entity_parsed:
  assumes "entitySchema raw = Some pe"
  shows "entity_conforms raw \<and> to_entity num_str u pe = expected_entity num_str u raw"
proof (cases raw)
  case (JObj kv)
  from assms obtain g sp ss sv st ml tx so re pa cx cf nt where
    f: "optional_nullable z_string_trim (map_of kv (ascii ''genus'')) = Some g"
       "optional_nullable z_string_trim (map_of kv (ascii ''species'')) = Some sp"
       "optional_nullable z_string_trim (map_of kv (ascii ''subspecies'')) = Some ss"
       "optional_nullable z_string_trim (map_of kv (ascii ''serovar'')) = Some sv"
       "optional_nullable z_string_trim (map_of kv (ascii ''strain'')) = Some st"
       "optional_nullable z_string_trim (map_of kv (ascii ''mlst_st'')) = Some ml"
       "optional_nullable z_string_trim (map_of kv (ascii ''source'')) = Some so"
       "optional_nullable z_string_trim (map_of kv (ascii ''pathogenicity'')) = Some pa"
    and t: "optional_nullable z_string_or_number (map_of kv (ascii ''taxonomy_id'')) = Some tx"
    and r: "optional_nullable z_strings_or_string (map_of kv (ascii ''resistance'')) = Some re"
    and c: "optional_nullable z_context_object (map_of kv (ascii ''context'')) = Some cx"
    and n: "optional_nullable z_number_min0_max1 (map_of kv (ascii ''confidence'')) = Some cf"
    and o: "optional_nullable z_string (map_of kv (ascii ''note'')) = Some nt"
    and pe: "pe = \<lparr>z_genus = g, z_species = sp, z_subspecies = ss,
       z_serovar = sv, z_strain = st, z_mlst_st = ml,
       z_taxonomy_id = tx, z_source = so, z_resistance = re,
       z_pathogenicity = pa, z_context = cx, z_confidence = cf,
       z_note = nt\<rparr>"
    unfolding JObj entitySchema.simps bind_eq_Some_conv by blast
  from o have o': "absent_or is_string (map_of kv (ascii ''note''))"
    using note_field_iff by blast
  note t' = taxonomy_field [OF t, of num_str]
  note r' = resistance_field [OF r]
  show ?thesis
    using f t' r' c n o'
    by (simp add: JObj pe text_field_iff context_field_iff confidence_field_iff
        to_entity_def expected_entity_def text_fields_def)
next
qed (use assms in simp_all)

lemma entity_conforms_parsed:
  assumes "entity_conforms raw"
  shows "\<exists>pe. entitySchema raw = Some pe"
proof (cases raw)
  case (JObj kv)
  from assms have
    f: "absent_or is_string (map_of kv (ascii ''genus''))"
       "absent_or is_string (map_of kv (ascii ''species''))"
       "absent_or is_string (map_of kv (ascii ''subspecies''))"
       "absent_or is_string (map_of kv (ascii ''serovar''))"
       "absent_or is_string (map_of kv (ascii ''strain''))"
       "absent_or is_string (map_of kv (ascii ''mlst_st''))"
       "absent_or is_string (map_of kv (ascii ''source''))"
       "absent_or is_string (map_of kv (ascii ''pathogenicity''))"
    and o: "absent_or is_string (map_of kv (ascii ''note''))"
    and t: "absent_or is_string_or_number (map_of kv (ascii ''taxonomy_id''))"
    and r: "absent_or is_string_or_string_list (map_of kv (ascii ''resistance''))"
    and c: "absent_or is_snippet_object (map_of kv (ascii ''context''))"
    and n: "absent_or is_unit_number (map_of kv (ascii ''confidence''))"
    by (simp_all add: JObj text_fields_def)
  from t obtain tx where t': "optional_nullable z_string_or_number (map_of kv (ascii ''taxonomy_id'')) = Some tx"
    using taxonomy_field_ex by blast
  from r obtain re where r': "optional_nullable z_strings_or_string (map_of kv (ascii ''resistance'')) = Some re"
    using resistance_field_ex by blast
  from o obtain nt where o': "optional_nullable z_string (map_of kv (ascii ''note'')) = Some nt"
    using note_field_iff by blast
  note f' = f [THEN text_field_iff [THEN iffD2, OF conjI, OF _ refl]]
  note c' = c [THEN context_field_iff [THEN iffD2, OF conjI, OF _ refl]]
  note n' = n [THEN confidence_field_iff [THEN iffD2, OF conjI, OF _ refl]]
  show ?thesis
    by (simp add: JObj t' r' o' f' c' n')
next
qed (use assms in simp_all)

lemma z_all_Some_iff: "z_all p xs = Some ys \<longleftrightarrow> map p xs = map Some ys"
proof (induction xs arbitrary: ys)
  case Nil
  then show ?case by auto
next
  case (Cons x xs)
  then show ?case by (cases ys) (fastforce split: option.splits)+
qed

lemma z_all_None_iff: "z_all p xs = None \<longleftrightarrow> (\<exists>x \<in> set xs. p x = None)"
  by (induction xs) (auto split: option.splits)

lemma z_all_nth:
  assumes "z_all p xs = Some ys"
  shows "length ys = length xs" and "i < length xs \<Longrightarrow> p (xs ! i) = Some (ys ! i)"
proof -
  from assms have m: "map p xs = map Some ys" by (simp add: z_all_Some_iff)
  then show l: "length ys = length xs" by (metis length_map)
  assume "i < length xs"
  with m l show "p (xs ! i) = Some (ys ! i)" by (metis nth_map)
qed

lemma map_entities_nth:
  "map_entities num_str g pes = (out, g1) \<Longrightarrow>
     length out = length pes \<and> g1 = (\<lambda>n. g (n + length pes))
     \<and> (\<forall>i < length pes. out ! i = to_entity num_str (g i) (pes ! i))"
proof (induction pes arbitrary: g out g1)
  case Nil
  then show ?case by simp
next
  case (Cons e es)
  obtain rest g2 where r: "map_entities num_str (\<lambda>n. g (Suc n)) es = (rest, g2)"
    by (cases "map_entities num_str (\<lambda>n. g (Suc n)) es")
  from Cons.prems r have o: "out = to_entity num_str (g 0) e # rest" and g: "g1 = g2"
    by (simp_all add: randomUUID_def)
  from Cons.IH [OF r] have l: "length rest = length es"
    and g2: "g2 = (\<lambda>n. g (Suc (n + length es)))"
    and n: "\<And>i. i < length es \<Longrightarrow> rest ! i = to_entity num_str (g (Suc i)) (es ! i)"
    by simp_all
  have "out ! i = to_entity num_str (g i) ((e # es) ! i)" if "i < length (e # es)" for i
    using that n o by (cases i) simp_all
  with l g g2 o show ?case by simp
qed

lemma summary_parsed_iff: "(\<exists>sm. summarySchema v = Some sm) \<longleftrightarrow> summary_conforms v"
proof (cases v)
  case (JObj kv)
  show ?thesis
  proof (cases "map_of kv (ascii ''key_findings'')")
    case None
    with JObj show ?thesis by simp
  next
    case (Some w)
    have "(\<exists>xs. z_array z_string w = Some xs) \<longleftrightarrow> is_string_list w"
      by (cases w) (auto dest: z_all_strings z_all_strings_ex)
    with JObj Some show ?thesis by (auto simp: bind_eq_Some_conv)
  qed
qed simp_all

lemma entities_parsed_iff:
  "(\<exists>pes. z_all entitySchema es = Some pes) \<longleftrightarrow> list_all entity_conforms es"
proof
  assume "\<exists>pes. z_all entitySchema es = Some pes"
  then have "\<forall>e \<in> set es. entitySchema e \<noteq> None"
    using z_all_None_iff [of entitySchema es] by auto
  then show "list_all entity_conforms es"
    unfolding list_all_iff using entity_parsed by blast
next
  assume "list_all entity_conforms es"
  then have "\<forall>e \<in> set es. entitySchema e \<noteq> None"
    unfolding list_all_iff using entity_conforms_parsed by fastforce
  then have "z_all entitySchema es \<noteq> None"
    using z_all_None_iff [of entitySchema es] by auto
  then show "\<exists>pes. z_all entitySchema es = Some pes" by auto
qed

lemma extraction_parsed:
  assumes "extractionSchema content = Some parsed"
  shows "conforms content \<and> z_all entitySchema (raw_entities content) = Some (z_entities parsed)"
proof (cases content)
  case (JObj kv)
  from assms obtain es sm where
    e: "with_default (z_array entitySchema) [] (map_of kv (ascii ''entities'')) = Some es"
    and s: "with_default summarySchema \<lparr>z_key_findings = []\<rparr> (map_of kv (ascii ''summary'')) = Some sm"
    and p: "parsed = \<lparr>z_entities = es, z_summary = sm\<rparr>"
    unfolding JObj extractionSchema.simps bind_eq_Some_conv by blast
  from s have s': "missing_or summary_conforms (map_of kv (ascii ''summary''))"
    by (cases "map_of kv (ascii ''summary'')") (use summary_parsed_iff in auto)
  show ?thesis
  proof (cases "map_of kv (ascii ''entities'')")
    case None
    with e s' p JObj show ?thesis by simp
  next
    case (Some w)
    with e have "z_array entitySchema w = Some es" by simp
    then obtain raws where w: "w = JArr raws" and z: "z_all entitySchema raws = Some es"
      by (cases w) simp_all
    from z have "list_all entity_conforms raws"
      using entities_parsed_iff by blast
    with Some w z s' p JObj show ?thesis by simp
  qed
qed (use assms in simp_all)

lemma conforms_parsed:
  assumes "conforms content"
  shows "\<exists>parsed. extractionSchema content = Some parsed"
proof (cases content)
  case (JObj kv)
  have "\<exists>es. with_default (z_array entitySchema) [] (map_of kv (ascii ''entities'')) = Some es"
  proof (cases "map_of kv (ascii ''entities'')")
    case None
    then show ?thesis by simp
  next
    case (Some w)
    with assms JObj have "is_entity_list w" by simp
    then show ?thesis
      using Some entities_parsed_iff by (cases w) simp_all
  qed
  moreover
  have "\<exists>sm. with_default summarySchema \<lparr>z_key_findings = []\<rparr> (map_of kv (ascii ''summary'')) = Some sm"
  proof (cases "map_of kv (ascii ''summary'')")
    case None
    then show ?thesis by simp
  next
    case (Some w)
    with assms JObj have "summary_conforms w" by simp
    then show ?thesis
      using Some summary_parsed_iff by simp
  qed
  ultimately show ?thesis
    using JObj by auto
qed (use assms in simp_all)

lemma normalize_Inr:
  assumes "normalize num_str g content = Inr (out, g1)"
  shows "conforms content"
    and "length out = length (raw_entities content)"
    and "g1 = (\<lambda>n. g (n + length (raw_entities content)))"
    and "i < length (raw_entities content) \<Longrightarrow>
           out ! i = expected_entity num_str (g i) (raw_entities content ! i)"
proof -
  from assms obtain parsed where p: "extractionSchema content = Some parsed"
    and m: "map_entities num_str g (z_entities parsed) = (out, g1)"
    by (auto simp: normalize_def split: option.splits)
  from extraction_parsed [OF p] have c: "conforms content"
    and z: "z_all entitySchema (raw_entities content) = Some (z_entities parsed)"
    by simp_all
  note l = z_all_nth(1) [OF z]
  from map_entities_nth [OF m] have lo: "length out = length (z_entities parsed)"
    and g: "g1 = (\<lambda>n. g (n + length (z_entities parsed)))"
    and n: "\<And>i. i < length (z_entities parsed) \<Longrightarrow>
          out ! i = to_entity num_str (g i) (z_entities parsed ! i)"
    by simp_all
  show "conforms content" by (rule c)
  show "length out = length (raw_entities content)" using lo l by simp
  show "g1 = (\<lambda>n. g (n + length (raw_entities content)))" using g l by simp
  assume i: "i < length (raw_entities content)"
  from z_all_nth(2) [OF z i]
  have "entitySchema (raw_entities content ! i) = Some (z_entities parsed ! i)" .
  from entity_parsed [OF this, of num_str "g i"] n [of i] i l
  show "out ! i = expected_entity num_str (g i) (raw_entities content ! i)" by simp
qed

lemma normalize_conforms:
  assumes "conforms content"
  shows "\<exists>out g1. normalize num_str g content = Inr (out, g1)"
proof -
  from conforms_parsed [OF assms] obtain parsed where "extractionSchema content = Some parsed" ..
  then show ?thesis
    by (cases "map_entities num_str g (z_entities parsed)") (simp add: normalize_def)
qed

lemma normalize_cases:
  "normalize num_str g content = Inl BadShape \<or> (\<exists>out g1. normalize num_str g content = Inr (out, g1))"
  by (cases "extractionSchema content")
     (auto simp: normalize_def intro: prod.exhaust)

lemma normalize_Inl_iff:
  "normalize num_str g content = Inl e \<longleftrightarrow> e = BadShape \<and> extractionSchema content = None"
  by (cases e) (auto simp: normalize_def split: option.splits)


lemma conforms_sample: "conforms sample_response"
  by (simp add: sample_response_def text_fields_def ascii_def)

lemma raw_entities_sample:
  "raw_entities sample_response = [
      JObj [(ascii ''id'', JStr (ascii ''from-model'')),
            (ascii ''genus'', JStr (ascii '' Escherichia '')),
            (ascii ''species'', JStr (ascii ''coli'')),
            (ascii ''strain'', JNull),
            (ascii ''taxonomy_id'', JNum 562),
            (ascii ''resistance'', JStr (ascii ''ampicillin'')),
            (ascii ''context'', JObj [(ascii ''snippet'', JStr (ascii ''E. coli was found''))]),
            (ascii ''confidence'', JNum 0.5),
            (ascii ''note'', JStr (ascii ''checked''))],
      JObj [(ascii ''genus'', JStr (ascii ''Salmonella'')),
            (ascii ''taxonomy_id'', JNum 0),
            (ascii ''resistance'',
               JArr [JStr (ascii ''ampicillin''), JStr [], JStr (ascii ''tetracycline'')])],
      JObj [(ascii ''taxonomy_id'', JStr (ascii ''0''))]]"
  by (simp add: sample_response_def ascii_def)

lemma expected_sample_0:
  "expected_entity sample_num_str (sample_ids 0) (raw_entities sample_response ! 0)
     = \<lparr>id' = ascii ''id-0'', genus = Some (ascii ''Escherichia''), species = Some (ascii ''coli''),
        subspecies = None, serovar = None, strain = None, mlst_st = None,
        taxonomy_id = Some (ascii ''562''), source = None,
        resistance = Some [ascii ''ampicillin''], pathogenicity = None,
        context' = Some (ascii ''E. coli was found''), confidence = Some 0.5\<rparr>"
  unfolding raw_entities_sample
  by (simp add: expected_entity_def sample_num_str_def sample_ids_def decimal.simps ascii_def
      trim_def is_ws_def)

lemma expected_sample_1:
  "expected_entity sample_num_str (sample_ids 1) (raw_entities sample_response ! 1)
     = \<lparr>id' = ascii ''id-1'', genus = Some (ascii ''Salmonella''), species = None,
        subspecies = None, serovar = None, strain = None, mlst_st = None,
        taxonomy_id = None, source = None,
        resistance = Some [ascii ''ampicillin'', ascii ''tetracycline''], pathogenicity = None,
        context' = None, confidence = None\<rparr>"
  unfolding raw_entities_sample
  by (simp add: expected_entity_def sample_num_str_def sample_ids_def decimal.simps ascii_def
      trim_def is_ws_def)


lemma trim_Nil_iff: "trim s = [] \<longleftrightarrow> list_all is_ws s"
proof
  assume "trim s = []"
  then have a: "\<forall>c \<in> set (dropWhile is_ws s). is_ws c"
    by (simp add: trim_def dropWhile_eq_Nil_conv)
  have "dropWhile is_ws s = []"
  proof (rule ccontr)
    assume n: "dropWhile is_ws s \<noteq> []"
    then have "\<not> is_ws (hd (dropWhile is_ws s))" by (rule hd_dropWhile)
    moreover from n have "hd (dropWhile is_ws s) \<in> set (dropWhile is_ws s)" by simp
    ultimately show False using a by blast
  qed
  then show "list_all is_ws s"
    by (simp add: dropWhile_eq_Nil_conv list_all_iff)
next
  assume "list_all is_ws s"
  then show "trim s = []"
    by (auto simp: trim_def list_all_iff dest: set_dropWhileD)
qed

lemma normalize_empty_object: "normalize num_str g (JObj []) = Inr ([], g)"
  by (simp add: normalize_def)

lemma content_of_cases:
  "content_of parse raw =
     (case raw of
        Some (JStr s) \<Rightarrow>
          (if list_all is_ws s then Inr (JObj [])
           else (case parse s of None \<Rightarrow> Inl NotJson | Some v \<Rightarrow> Inr v))
      | _ \<Rightarrow> Inr (JObj []))"
  by (simp add: content_of_def trim_Nil_iff split: option.splits json.splits)


lemma contentRaw_envelope: "contentRaw_of (envelope content) = Some content"
  by (simp add: contentRaw_of_def envelope_def ascii_def)

lemma parse_samples:
  "sample_parse (ascii ''not json'') = None"
  "sample_parse (ascii ''null'') = Some JNull"
  "sample_parse bad_confidence_text = Some bad_confidence_response"
  by (simp_all add: sample_parse_def bad_confidence_text_def dq_def ascii_def)

lemma blank_samples:
  "list_all is_ws (ascii ''  '')"
  "\<not> list_all is_ws (ascii ''not json'')"
  "\<not> list_all is_ws (ascii ''null'')"
  "\<not> list_all is_ws bad_confidence_text"
  by (simp_all add: bad_confidence_text_def dq_def ascii_def is_ws_def)


text \<open>
  C2. For every raw response of the expected shape, normalization succeeds with one
  entity per raw entity object, in the order of the input; the entity at each position
  is the one the specification expects for the raw object at that position, and its
  identifier is the one drawn from the generator at that point, whatever the input
  holds; a note on the raw object changes nothing in the result. The generator is left
  advanced by the number of entities.
\<close>

theorem normalize_conforming:
  assumes "conforms content"
  shows "\<exists>out. normalize num_str g content
            = Inr (out, \<lambda>n. g (n + length (raw_entities content)))
         \<and> length out = length (raw_entities content)
         \<and> (\<forall>i < length (raw_entities content).
               out ! i = expected_entity num_str (g i) (raw_entities content ! i)
             \<and> id' (out ! i) = g i
             \<and> (\<forall>kv v. raw_entities content ! i = JObj ((ascii ''note'', v) # kv)
                   \<longrightarrow> out ! i = expected_entity num_str (g i) (JObj kv)))"
proof -
  from normalize_conforms [OF assms] obtain out g1
    where n: "normalize num_str g content = Inr (out, g1)" by blast
  note r = normalize_Inr [OF n]
  have "id' (expected_entity num_str u raw) = u" for u raw
    by (simp add: expected_entity_def)
  moreover have "expected_entity num_str u (JObj ((ascii ''note'', v) # kv))
      = expected_entity num_str u (JObj kv)" for u v kv
    by (simp add: expected_entity_def ascii_def)
  ultimately show ?thesis using n r by auto
qed

theorem normalize_conforming_witness:
  "conforms sample_response
   \<and> (\<exists>out g1. normalize sample_num_str sample_ids sample_response = Inr (out, g1)
        \<and> length out = 3
        \<and> out ! 0 = \<lparr>id' = ascii ''id-0'', genus = Some (ascii ''Escherichia''),
             species = Some (ascii ''coli''), subspecies = None, serovar = None, strain = None,
             mlst_st = None, taxonomy_id = Some (ascii ''562''), source = None,
             resistance = Some [ascii ''ampicillin''], pathogenicity = None,
             context' = Some (ascii ''E. coli was found''), confidence = Some 0.5\<rparr>
        \<and> out ! 1 = \<lparr>id' = ascii ''id-1'', genus = Some (ascii ''Salmonella''), species = None,
             subspecies = None, serovar = None, strain = None, mlst_st = None,
             taxonomy_id = None, source = None,
             resistance = Some [ascii ''ampicillin'', ascii ''tetracycline''],
             pathogenicity = None, context' = None, confidence = None\<rparr>)"
proof -
  have l: "length (raw_entities sample_response) = 3"
    by (simp add: raw_entities_sample)
  from normalize_conforming [OF conforms_sample, of sample_num_str sample_ids]
  obtain out where
    n: "normalize sample_num_str sample_ids sample_response
          = Inr (out, \<lambda>n. sample_ids (n + length (raw_entities sample_response)))"
    and lo: "length out = length (raw_entities sample_response)"
    and e: "\<forall>i < length (raw_entities sample_response).
               out ! i = expected_entity sample_num_str (sample_ids i) (raw_entities sample_response ! i)
             \<and> id' (out ! i) = sample_ids i"
    by blast
  from e l have "out ! 0 = expected_entity sample_num_str (sample_ids 0) (raw_entities sample_response ! 0)"
    and "out ! 1 = expected_entity sample_num_str (sample_ids 1) (raw_entities sample_response ! 1)"
    by simp_all
  with n lo l conforms_sample show ?thesis
    unfolding expected_sample_0 expected_sample_1 by auto
qed

text \<open>
  C1. A response whose entities hold an object with a numeric confidence below 0 or
  above 1 fails as a whole with the validation error, from the normalizer and from the
  extraction that parsed it.
\<close>

theorem confidence_out_of_range_rejected:
  assumes "map_of kv (ascii ''entities'') = Some (JArr es)"
    and "JObj fs \<in> set es"
    and "map_of fs (ascii ''confidence'') = Some (JNum c)"
    and "c < 0 \<or> 1 < c"
  shows "normalize num_str g (JObj kv) = Inl BadShape
     \<and> (contentRaw_of js = Some (JStr s) \<and> trim s \<noteq> [] \<and> parse s = Some (JObj kv)
          \<longrightarrow> extractEntitiesFromText parse num_str g js = Inl BadShape)"
proof -
  have "\<not> conforms (JObj kv)"
  proof
    assume "conforms (JObj kv)"
    with assms(1) have "list_all entity_conforms es" by simp
    with assms(2) have "entity_conforms (JObj fs)" unfolding list_all_iff by blast
    with assms(3) have "0 \<le> c \<and> c \<le> 1" by simp
    with assms(4) show False by simp
  qed
  then have n: "normalize num_str g (JObj kv) = Inl BadShape"
    using normalize_cases [of num_str g "JObj kv"] normalize_Inr(1) by blast
  then show ?thesis
    by (simp add: extractEntitiesFromText_def content_of_def)
qed


theorem confidence_out_of_range_rejected_witness:
  "normalize sample_num_str sample_ids bad_confidence_response = Inl BadShape
   \<and> extractEntitiesFromText sample_parse sample_num_str sample_ids
        (envelope (JStr bad_confidence_text)) = Inl BadShape"
proof -
  have c: "(1.5::real) < 0 \<or> 1 < (1.5::real)" by simp
  have t: "trim bad_confidence_text \<noteq> []"
    using blank_samples(4) by (simp add: trim_Nil_iff)
  from confidence_out_of_range_rejected [of
      "[(ascii ''entities'', JArr [
          JObj [(ascii ''genus'', JStr (ascii ''Salmonella''))],
          JObj [(ascii ''genus'', JStr (ascii ''Escherichia'')), (ascii ''confidence'', JNum 1.5)]])]"
      "[JObj [(ascii ''genus'', JStr (ascii ''Salmonella''))],
        JObj [(ascii ''genus'', JStr (ascii ''Escherichia'')), (ascii ''confidence'', JNum 1.5)]]"
      "[(ascii ''genus'', JStr (ascii ''Escherichia'')), (ascii ''confidence'', JNum 1.5)]"
      "1.5" sample_num_str sample_ids "envelope (JStr bad_confidence_text)" bad_confidence_text
      sample_parse, OF _ _ _ c]
  show ?thesis
    using t parse_samples(3) contentRaw_envelope [of "JStr bad_confidence_text"]
    by (simp add: bad_confidence_response_def ascii_def)
qed

lemma conforms_empty_id: "conforms empty_id_response"
  by (simp add: empty_id_response_def text_fields_def ascii_def)

text \<open>
  C9. For every raw entity whose taxonomy_id is the number 0 or the empty string, the
  normalizer (which succeeds on every conforming response) gives taxonomy_id null: the
  conversion to a string is guarded by a truthiness test, so for these entities the
  normalized taxonomy_id is neither the string "0" nor the empty string.
\<close>

theorem falsy_taxonomy_id_is_null:
  assumes "i < length (raw_entities content)"
    and "raw_prop (raw_entities content ! i) ''taxonomy_id'' = Some (JNum 0)
         \<or> raw_prop (raw_entities content ! i) ''taxonomy_id'' = Some (JStr [])"
  shows "(conforms content \<longrightarrow> (\<exists>out g1. normalize num_str g content = Inr (out, g1)))
     \<and> (\<forall>out g1. normalize num_str g content = Inr (out, g1) \<longrightarrow>
           taxonomy_id (out ! i) = None
         \<and> taxonomy_id (out ! i) \<noteq> Some (ascii ''0'')
         \<and> taxonomy_id (out ! i) \<noteq> Some [])"
proof -
  have "taxonomy_id (out ! i) = None" if n: "normalize num_str g content = Inr (out, g1)" for out g1
  proof -
    from normalize_Inr(4) [OF n assms(1)]
    have "taxonomy_id (out ! i)
        = expected_taxonomy_id num_str (raw_prop (raw_entities content ! i) ''taxonomy_id'')"
      by (simp add: expected_entity_def)
    with assms(2) show ?thesis by auto
  qed
  then show ?thesis
    using normalize_conforms [of content num_str g] by auto
qed

theorem falsy_taxonomy_id_is_null_witness:
  "conforms sample_response
   \<and> raw_prop (raw_entities sample_response ! 1) ''taxonomy_id'' = Some (JNum 0)
   \<and> (\<exists>out g1. normalize sample_num_str sample_ids sample_response = Inr (out, g1)
        \<and> taxonomy_id (out ! 1) = None)
   \<and> conforms empty_id_response
   \<and> raw_prop (raw_entities empty_id_response ! 0) ''taxonomy_id'' = Some (JStr [])
   \<and> (\<exists>out g1. normalize sample_num_str sample_ids empty_id_response = Inr (out, g1)
        \<and> taxonomy_id (out ! 0) = None)"
proof -
  have l1: "1 < length (raw_entities sample_response)"
    by (simp add: raw_entities_sample)
  have v1: "raw_prop (raw_entities sample_response ! 1) ''taxonomy_id'' = Some (JNum 0)"
    unfolding raw_entities_sample by (simp add: ascii_def)
  have l2: "0 < length (raw_entities empty_id_response)"
    by (simp add: empty_id_response_def ascii_def)
  have v2: "raw_prop (raw_entities empty_id_response ! 0) ''taxonomy_id'' = Some (JStr [])"
    by (simp add: empty_id_response_def ascii_def)
  from falsy_taxonomy_id_is_null [OF l1 disjI1, OF v1, of sample_num_str sample_ids] conforms_sample
  have a: "\<exists>out g1. normalize sample_num_str sample_ids sample_response = Inr (out, g1)
        \<and> taxonomy_id (out ! 1) = None"
    by blast
  from falsy_taxonomy_id_is_null [OF l2 disjI2, OF v2, of sample_num_str sample_ids] conforms_empty_id
  have b: "\<exists>out g1. normalize sample_num_str sample_ids empty_id_response = Inr (out, g1)
        \<and> taxonomy_id (out ! 0) = None"
    by blast
  from conforms_sample v1 a conforms_empty_id v2 b show ?thesis by blast
qed

text \<open>
  Outside that condition a non-empty raw string is truthy and kept as it is: the raw
  string "0" gives the string "0".
\<close>

lemma taxonomy_id_zero_text_kept:
  "map_sum id (map taxonomy_id \<circ> fst)
     (normalize sample_num_str sample_ids
        (JObj [(ascii ''entities'', JArr [JObj [(ascii ''taxonomy_id'', JStr (ascii ''0''))]])]))
   = Inr [Some (ascii ''0'')]"
  by (simp add: normalize_def randomUUID_def to_entity_def z_string_or_number_def truthy_def
      ascii_def)

text \<open>
  C10. When the content of the first choice is absent, not a string, or a string of
  white space only, the extraction succeeds with no entities and draws no identifier.
  It fails exactly when the content is a string with something other than white space
  that is not JSON, or that parses to a value the schema rejects.
\<close>

theorem content_gate:
  "((contentRaw_of js = None
      \<or> (\<exists>v. contentRaw_of js = Some v \<and> \<not> is_string v)
      \<or> (\<exists>s. contentRaw_of js = Some (JStr s) \<and> list_all is_ws s))
     \<longrightarrow> extractEntitiesFromText parse num_str g js = Inr ([], g))
   \<and> (extractEntitiesFromText parse num_str g js = Inl e \<longleftrightarrow>
        (\<exists>s. contentRaw_of js = Some (JStr s) \<and> \<not> list_all is_ws s
           \<and> ((parse s = None \<and> e = NotJson)
              \<or> (\<exists>v. parse s = Some v \<and> extractionSchema v = None \<and> e = BadShape))))"
proof (cases "contentRaw_of js")
  case None
  then show ?thesis
    by (simp add: extractEntitiesFromText_def content_of_cases normalize_empty_object)
next
  case (Some v)
  show ?thesis
  proof (cases v)
    case (JStr s)
    show ?thesis
    proof (cases "list_all is_ws s")
      case True
      with Some JStr show ?thesis
        by (simp add: extractEntitiesFromText_def content_of_cases normalize_empty_object)
    next
      case False
      show ?thesis
      proof (cases "parse s")
        case None
        with Some JStr False show ?thesis
          by (auto simp: extractEntitiesFromText_def content_of_cases)
      next
        case (Some w)
        with \<open>contentRaw_of js = Some v\<close> JStr False show ?thesis
          by (auto simp: extractEntitiesFromText_def content_of_cases normalize_Inl_iff)
      qed
    qed
  qed (use Some in \<open>simp_all add: extractEntitiesFromText_def content_of_cases normalize_empty_object\<close>)
qed

theorem content_gate_witness:
  "extractEntitiesFromText sample_parse sample_num_str sample_ids (JObj []) = Inr ([], sample_ids)
   \<and> extractEntitiesFromText sample_parse sample_num_str sample_ids (envelope (JNum 3))
       = Inr ([], sample_ids)
   \<and> extractEntitiesFromText sample_parse sample_num_str sample_ids (envelope (JStr (ascii ''  '')))
       = Inr ([], sample_ids)
   \<and> extractEntitiesFromText sample_parse sample_num_str sample_ids (envelope (JStr (ascii ''not json'')))
       = Inl NotJson
   \<and> extractEntitiesFromText sample_parse sample_num_str sample_ids (envelope (JStr (ascii ''null'')))
       = Inl BadShape
   \<and> extractEntitiesFromText sample_parse sample_num_str sample_ids
        (envelope (JStr bad_confidence_text)) = Inl BadShape"
proof -
  have a: "contentRaw_of (JObj []) = None"
    by (simp add: contentRaw_of_def)
  have s: "extractionSchema JNull = None" by simp
  have b: "extractionSchema bad_confidence_response = None"
    by (simp add: bad_confidence_response_def z_string_trim_def z_number_min0_max1_def ascii_def)
  have 1: "extractEntitiesFromText sample_parse sample_num_str sample_ids (JObj []) = Inr ([], sample_ids)"
    using content_gate [of "JObj []" sample_parse sample_num_str sample_ids] a by blast
  have 2: "extractEntitiesFromText sample_parse sample_num_str sample_ids (envelope (JNum 3))
       = Inr ([], sample_ids)"
    using content_gate [of "envelope (JNum 3)" sample_parse sample_num_str sample_ids]
      contentRaw_envelope [of "JNum 3"] by auto
  have 3: "extractEntitiesFromText sample_parse sample_num_str sample_ids (envelope (JStr (ascii ''  '')))
       = Inr ([], sample_ids)"
    using content_gate [of "envelope (JStr (ascii ''  ''))" sample_parse sample_num_str sample_ids]
      contentRaw_envelope [of "JStr (ascii ''  '')"] blank_samples(1) by blast
  have 4: "extractEntitiesFromText sample_parse sample_num_str sample_ids (envelope (JStr (ascii ''not json'')))
       = Inl NotJson"
    using content_gate [of "envelope (JStr (ascii ''not json''))" sample_parse sample_num_str sample_ids NotJson]
      contentRaw_envelope [of "JStr (ascii ''not json'')"] blank_samples(2) parse_samples(1) by blast
  have 5: "extractEntitiesFromText sample_parse sample_num_str sample_ids (envelope (JStr (ascii ''null'')))
       = Inl BadShape"
    using content_gate [of "envelope (JStr (ascii ''null''))" sample_parse sample_num_str sample_ids BadShape]
      contentRaw_envelope [of "JStr (ascii ''null'')"] blank_samples(3) parse_samples(2) s by blast
  have 6: "extractEntitiesFromText sample_parse sample_num_str sample_ids
        (envelope (JStr bad_confidence_text)) = Inl BadShape"
    using content_gate [of "envelope (JStr bad_confidence_text)" sample_parse sample_num_str sample_ids BadShape]
      contentRaw_envelope [of "JStr bad_confidence_text"] blank_samples(4) parse_samples(3) b by blast
  show ?thesis using 1 2 3 4 5 6 by blast
qed

end
